theory Spec2Isabelle
  imports Main "HOL-Library.Word"
begin

section \<open>Data model of the relayer's Link (src/lib/link.ts)\<close>

text \<open>
  \<^verbatim>\<open>export type Side = 'A' | 'B'\<close>: the selector of the endpoint an action starts from.
\<close>

datatype Side = A | B

fun otherSide :: "Side \<Rightarrow> Side" where
  "otherSide side = (if side = A then B else A)"

text \<open>A \<^verbatim>\<open>Uint8Array\<close> is a list of bytes.\<close>

type_synonym bytes = "8 word list"

text \<open>
  The JavaScript numbers of this code are block heights, sequence numbers and periods in
  seconds: doubles that hold integers, modelled by \<open>int\<close>. Comparing two of them and
  taking their maximum is exact; adding rounds, see \<open>toDouble\<close>. The one other value that
  occurs is \<^verbatim>\<open>-Infinity\<close>, the result of \<^verbatim>\<open>Math.max()\<close> on no arguments; \<open>number\<close>
  adds it.
\<close>

datatype number = NegInfinity | Fin int

text \<open>\<^verbatim>\<open>Math.max(...xs)\<close>: the largest argument, \<^verbatim>\<open>-Infinity\<close> when there is none.\<close>

definition Math_max :: "int list \<Rightarrow> number" where
  "Math_max xs =
     foldl (\<lambda>acc x. case acc of NegInfinity \<Rightarrow> Fin x | Fin a \<Rightarrow> Fin (max a x)) NegInfinity xs"

text \<open>The number of binary digits of a positive integer.\<close>

function bitLength :: "int \<Rightarrow> nat" where
  "bitLength n = (if n \<le> 0 then 0 else Suc (bitLength (n div 2)))"
  by pat_completeness auto
termination
  by (relation "measure nat") auto

text \<open>
  The double nearest to an integer, as IEEE 754 addition returns it: an integer of
  magnitude up to \<open>2^53\<close> is a double; a larger one keeps its 53 leading binary digits,
  rounded to the nearest, a tie going to the even one. (The sum of a double and 1 never
  leaves the range of the doubles, so there is no overflow to model.)
\<close>

definition toDouble :: "int \<Rightarrow> int" where
  "toDouble m =
     (let a = \<bar>m\<bar> in
      if a \<le> 9007199254740992 then m
      else
        let q = 2 ^ (bitLength a - 53);
            lo = a div q;
            r = a mod q;
            mant = (if q < 2 * r \<or> (2 * r = q \<and> odd lo) then lo + 1 else lo)
        in sgn m * (mant * q))"

text \<open>
  \<^verbatim>\<open>n + 1\<close> on such a number: the double nearest to the sum, and \<^verbatim>\<open>-Infinity + 1\<close> is
  \<^verbatim>\<open>-Infinity\<close>.
\<close>

fun plus1 :: "number \<Rightarrow> number" where
  "plus1 NegInfinity = NegInfinity"
| "plus1 (Fin n) = Fin (toDouble (n + 1))"

text \<open>\<^verbatim>\<open>a <= b\<close> and \<^verbatim>\<open>a < b\<close> on such numbers.\<close>

fun num_le :: "number \<Rightarrow> number \<Rightarrow> bool" where
  "num_le NegInfinity _ = True"
| "num_le (Fin a) NegInfinity = False"
| "num_le (Fin a) (Fin b) = (a \<le> b)"

fun num_lt :: "number \<Rightarrow> number \<Rightarrow> bool" where
  "num_lt _ NegInfinity = False"
| "num_lt NegInfinity (Fin b) = True"
| "num_lt (Fin a) (Fin b) = (a < b)"

text \<open>
  The codec types the Link reads (\<^verbatim>\<open>src/codec/...\<close>, generated from the IBC protobuf
  files, is not among the sources). Only the fields link.ts touches are kept;
  a \<^verbatim>\<open>Long\<close> is an \<open>int\<close>.
\<close>

record Height =
  revisionNumber :: int
  revisionHeight :: int

record Header =
  hdr_height :: int
  hdr_nextValidatorsHash :: bytes
  hdr_appHash :: bytes

record MerkleRoot =
  hash :: bytes

record ConsensusState =
  nextValidatorsHash :: bytes
  root :: "MerkleRoot option"

record ClientState =
  chainId :: string
  latestHeight :: "Height option"
  trustingPeriod :: int
  unbondingPeriod :: int

text \<open>
  Modelled from the spec: the enum \<^verbatim>\<open>State\<close> that link.ts imports from the codec is
  missing; the spec gives the connection states INIT, TRYOPEN and OPEN and the channel
  state CLOSED, the protobuf enum adds the unspecified and the unrecognised value.
\<close>

datatype State =
  STATE_UNINITIALIZED_UNSPECIFIED | STATE_INIT | STATE_TRYOPEN | STATE_OPEN | STATE_CLOSED
  | UNRECOGNIZED

record Counterparty =
  cp_clientId :: string
  cp_connectionId :: string

record ConnectionEnd =
  clientId :: string
  state :: State
  counterparty :: "Counterparty option"

record Packet =
  sequence :: int
  sourcePort :: string
  sourceChannel :: string
  destinationPort :: string
  destinationChannel :: string
  data :: bytes

record PacketWithMetadata =
  packet :: Packet
  height :: int

record Ack =
  acknowledgement :: bytes
  originalPacket :: Packet

record AckWithMetadata =
  ack_height :: int
  ack_acknowledgement :: bytes
  ack_originalPacket :: Packet

record QueryOpts =
  minHeight :: "int option"

record CreateClientArgs =
  clientState :: ClientState
  consensusState :: ConsensusState

text \<open>Proofs and transaction logs are opaque to the Link: it only passes them on.\<close>

type_synonym ConnectionHandshakeProof = bytes
type_synonym Log = string

text \<open>
  An \<^verbatim>\<open>IbcClient\<close> object (one signing client bound to one chain) is a reference; its
  methods are the fields of the environment below, which take the receiver first.
\<close>

type_synonym IbcClient = nat

record Endpoint =
  client :: IbcClient
  clientID :: string
  connectionID :: string

record EndpointPair =
  src :: Endpoint
  dest :: Endpoint

text \<open>The Link; its logger only prints and is left out.\<close>

record Link =
  endA :: Endpoint
  endB :: Endpoint

text \<open>
  \<^verbatim>\<open>RelayedHeights\<close>, every field optional. The first field is spelled
  \<^verbatim>\<open>packetHeighA\<close> in the source.
\<close>

record RelayedHeights =
  packetHeighA :: "int option"
  packetHeightB :: "int option"
  ackHeightA :: "int option"
  ackHeightB :: "int option"

text \<open>\<^verbatim>\<open>const genesisUnbondingTime = 1814400\<close>, in seconds.\<close>

definition genesisUnbondingTime :: int where
  "genesisUnbondingTime = 1814400"

subsection \<open>Errors\<close>

text \<open>
  link.ts and ics20.ts throw plain \<^verbatim>\<open>Error\<close>s that differ in their message; there is one
  constructor for each \<^verbatim>\<open>throw\<close>, in the order of the source, with the values the message
  interpolates. \<open>TypeError\<close> is the runtime's error for a method call on \<^verbatim>\<open>undefined\<close>, and
  \<open>Rejected\<close> is any error a collaborator (a chain's RPC, a rejected broadcast) raises.
\<close>

datatype error =
    ConnectionNotFound string
  | CounterpartyNotFound string
  | ConnectionNotOpen Side State
  | ClientIdMismatch string string string string
  | ChainIdMismatch string string string
  | NextValidatorHashMismatch
  | RootHashMissing
  | AppHashMismatch
  | NoSrcConnection
  | NoDestConnection
  | TypeError
  | Rejected string

text \<open>
  Modelled from the spec: the source has no error classes; section 7 of the spec sorts
  the failures into kinds. ConfigError is "missing or contradictory inputs (e.g. one of
  srcConnection/destConnection set)", ConsensusError is "on-chain state contradicts an
  invariant (hash mismatch, chain-id mismatch, connection not OPEN)" and, in 4.1, "queried
  state is missing"; what a collaborator raises is a ChainError here.
\<close>

datatype errorKind = ConfigError | ChainError | ConsensusError | RuntimeError

fun kindOf :: "error \<Rightarrow> errorKind" where
  "kindOf NoSrcConnection = ConfigError"
| "kindOf NoDestConnection = ConfigError"
| "kindOf (Rejected _) = ChainError"
| "kindOf TypeError = RuntimeError"
| "kindOf _ = ConsensusError"

subsection \<open>Calls to the collaborators, and the record of them\<close>

text \<open>
  Every call that is made on an \<^verbatim>\<open>IbcClient\<close> or on an \<^verbatim>\<open>Endpoint\<close>, with its arguments.
  The receiver is kept beside the call in the trace.
\<close>

datatype call =
    QueryConnection string
  | GetChainId
  | QueryClientStateTm string
  | QueryConsensusStateTm string "Height option"
  | GetHeader int
  | LatestHeader
  | WaitOneBlock
  | DoUpdateClient string IbcClient
  | CreateTendermintClient ClientState ConsensusState
  | ConnOpenInit string string
  | ConnOpenTry string ConnectionHandshakeProof
  | ConnOpenAck string ConnectionHandshakeProof
  | ConnOpenConfirm ConnectionHandshakeProof
  | QueryUnreceivedPackets string string "int list"
  | QueryUnreceivedAcks string string "int list"
  | GetPacketProof Packet Height
  | GetAckProof AckWithMetadata Height
  | ReceivePackets "Packet list" "bytes list" Height
  | AcknowledgePackets "AckWithMetadata list" "bytes list" Height
  | GetConnectionProof string string "Height option"
  | QuerySentPackets Endpoint QueryOpts
  | QueryWrittenAcks Endpoint QueryOpts

text \<open>What a call answered, when it did not fail.\<close>

datatype resp =
    RUnit
  | RString string
  | RNumber int
  | RHeight Height
  | RHeader Header
  | RConnection "ConnectionEnd option"
  | RClientState ClientState
  | RConsensusState ConsensusState

  | RBytes bytes
  | RSequences "int list"
  | RPackets "PacketWithMetadata list"
  | RAcks "AckWithMetadata list"
  | RTx "Log list" int

type_synonym event = "IbcClient \<times> call \<times> (error + resp)"

text \<open>
  The calls that broadcast a transaction: section 4.1 of the spec lists the handshake
  transactions (createTendermintClient, updateClient, connOpenInit .. connOpenConfirm) and
  the data-plane transactions (receivePackets, acknowledgePackets); everything else that
  is called is a query, a proof request or a wait.
\<close>

fun is_tx :: "call \<Rightarrow> bool" where
  "is_tx (DoUpdateClient _ _) = True"
| "is_tx (CreateTendermintClient _ _) = True"
| "is_tx (ConnOpenInit _ _) = True"
| "is_tx (ConnOpenTry _ _) = True"
| "is_tx (ConnOpenAck _ _) = True"
| "is_tx (ConnOpenConfirm _) = True"
| "is_tx (ReceivePackets _ _ _) = True"
| "is_tx (AcknowledgePackets _ _ _) = True"
| "is_tx _ = False"

definition txs :: "event list \<Rightarrow> (IbcClient \<times> call) list" where
  "txs evs = filter (\<lambda>(n, c). is_tx c) (map (\<lambda>(n, c, r). (n, c)) evs)"

subsection \<open>Asynchronous functions: state, failure and the trace\<close>

text \<open>
  An \<^verbatim>\<open>async\<close> function runs against the outside world (the two chains), may change it,
  and either returns or throws. The state is the world, of any type \<open>'w\<close>, and the trace
  of the calls made so far; a failing run keeps the state it reached.
\<close>

record 'w st =
  world :: 'w
  trace :: "event list"

type_synonym ('w, 'a) promise = "'w st \<Rightarrow> (error + 'a) \<times> 'w st"

definition resolve :: "'a \<Rightarrow> ('w, 'a) promise" where
  "resolve a = (\<lambda>s. (Inr a, s))"

definition throw :: "error \<Rightarrow> ('w, 'a) promise" where
  "throw e = (\<lambda>s. (Inl e, s))"

text \<open>\<^verbatim>\<open>const a = await m; k(a)\<close>: a rejection of \<open>m\<close> is thrown on.\<close>

definition await :: "('w, 'a) promise \<Rightarrow> ('a \<Rightarrow> ('w, 'b) promise) \<Rightarrow> ('w, 'b) promise" where
  "await m k = (\<lambda>s. case m s of (Inl e, s') \<Rightarrow> (Inl e, s') | (Inr a, s') \<Rightarrow> k a s')"

text \<open>
  \<^verbatim>\<open>await Promise.all([p, q])\<close>: both promises are started, in this order, and both run
  to their end whatever the other does; the result is the pair of their values, or a
  rejection when one of them rejects. The model runs them one after the other (their
  interleaving on the network is not modelled) and reports the first rejection in that
  order.
\<close>

definition promiseAll2 :: "('w, 'a) promise \<Rightarrow> ('w, 'b) promise \<Rightarrow> ('w, 'a \<times> 'b) promise" where
  "promiseAll2 p q = (\<lambda>s.
     case p s of (r1, s1) \<Rightarrow>
     case q s1 of (r2, s2) \<Rightarrow>
       (case r1 of Inl e \<Rightarrow> Inl e
        | Inr a \<Rightarrow> (case r2 of Inl e \<Rightarrow> Inl e | Inr b \<Rightarrow> Inr (a, b)), s2))"

fun promiseAll :: "('w, 'a) promise list \<Rightarrow> ('w, 'a list) promise" where
  "promiseAll [] = resolve []"
| "promiseAll (p # ps) = await (promiseAll2 p (promiseAll ps)) (\<lambda>(a, as). resolve (a # as))"

text \<open>
  A call of a collaborator: the world answers, and the call is appended to the trace
  with its answer.
\<close>

definition invoke ::
  "IbcClient \<Rightarrow> call \<Rightarrow> ('a \<Rightarrow> resp) \<Rightarrow> ('w \<Rightarrow> (error + 'a) \<times> 'w) \<Rightarrow> ('w, 'a) promise" where
  "invoke n c answer f = (\<lambda>s.
     case f (world s) of (r, w') \<Rightarrow>
       (r, \<lparr>world = w', trace = trace s @ [(n, c, map_sum id answer r)]\<rparr>))"

subsection \<open>The collaborators\<close>

text \<open>
  ibcclient.ts, endpoint.ts and utils.ts are not among the sources, so what the
  Link calls there is a parameter: a record with one field for each method, over the world.
  \<open>'w \<Rightarrow> (error + 'a) \<times> 'w\<close> is a call that may fail and may change the chains.
\<close>

type_synonym ('w, 'a) rpc = "'w \<Rightarrow> (error + 'a) \<times> 'w"

record 'w env =
  env_queryConnection :: "IbcClient \<Rightarrow> string \<Rightarrow> ('w, ConnectionEnd option) rpc"
  env_getChainId :: "IbcClient \<Rightarrow> ('w, string) rpc"
  env_queryClientStateTm :: "IbcClient \<Rightarrow> string \<Rightarrow> ('w, ClientState) rpc"
  env_queryConsensusStateTm :: "IbcClient \<Rightarrow> string \<Rightarrow> Height option \<Rightarrow> ('w, ConsensusState) rpc"
  env_header :: "IbcClient \<Rightarrow> int \<Rightarrow> ('w, Header) rpc"
  env_latestHeader :: "IbcClient \<Rightarrow> ('w, Header) rpc"
  env_waitOneBlock :: "IbcClient \<Rightarrow> ('w, unit) rpc"
  env_doUpdateClient :: "IbcClient \<Rightarrow> string \<Rightarrow> IbcClient \<Rightarrow> ('w, Height) rpc"
  env_createTendermintClient :: "IbcClient \<Rightarrow> ClientState \<Rightarrow> ConsensusState \<Rightarrow> ('w, string) rpc"
  env_connOpenInit :: "IbcClient \<Rightarrow> string \<Rightarrow> string \<Rightarrow> ('w, string) rpc"
  env_connOpenTry :: "IbcClient \<Rightarrow> string \<Rightarrow> ConnectionHandshakeProof \<Rightarrow> ('w, string) rpc"
  env_connOpenAck :: "IbcClient \<Rightarrow> string \<Rightarrow> ConnectionHandshakeProof \<Rightarrow> ('w, unit) rpc"
  env_connOpenConfirm :: "IbcClient \<Rightarrow> ConnectionHandshakeProof \<Rightarrow> ('w, unit) rpc"
  env_unreceivedPackets :: "IbcClient \<Rightarrow> string \<Rightarrow> string \<Rightarrow> int list \<Rightarrow> ('w, int list) rpc"
  env_unreceivedAcks :: "IbcClient \<Rightarrow> string \<Rightarrow> string \<Rightarrow> int list \<Rightarrow> ('w, int list) rpc"
  env_getPacketProof :: "IbcClient \<Rightarrow> Packet \<Rightarrow> Height \<Rightarrow> ('w, bytes) rpc"
  env_getAckProof :: "IbcClient \<Rightarrow> AckWithMetadata \<Rightarrow> Height \<Rightarrow> ('w, bytes) rpc"
  env_receivePackets ::
    "IbcClient \<Rightarrow> Packet list \<Rightarrow> bytes list \<Rightarrow> Height \<Rightarrow> ('w, Log list \<times> int) rpc"
  env_acknowledgePackets ::
    "IbcClient \<Rightarrow> AckWithMetadata list \<Rightarrow> bytes list \<Rightarrow> Height \<Rightarrow> ('w, Log list \<times> int) rpc"
  env_getConnectionProof ::
    "IbcClient \<Rightarrow> string \<Rightarrow> string \<Rightarrow> Height option \<Rightarrow> ('w, ConnectionHandshakeProof) rpc"
  env_querySentPackets :: "Endpoint \<Rightarrow> QueryOpts \<Rightarrow> ('w, PacketWithMetadata list) rpc"
  env_queryWrittenAcks :: "Endpoint \<Rightarrow> QueryOpts \<Rightarrow> ('w, AckWithMetadata list) rpc"
  env_parseAcksFromLogs :: "Log list \<Rightarrow> Ack list"

text \<open>The methods as the Link calls them: the collaborator's answer, recorded in the trace.\<close>

definition queryConnection :: "'w env \<Rightarrow> IbcClient \<Rightarrow> string \<Rightarrow> ('w, ConnectionEnd option) promise" where
  "queryConnection env n connId =
     invoke n (QueryConnection connId) RConnection (env_queryConnection env n connId)"

definition getChainId :: "'w env \<Rightarrow> IbcClient \<Rightarrow> ('w, string) promise" where
  "getChainId env n = invoke n GetChainId RString (env_getChainId env n)"

definition queryClientStateTm :: "'w env \<Rightarrow> IbcClient \<Rightarrow> string \<Rightarrow> ('w, ClientState) promise" where
  "queryClientStateTm env n cid =
     invoke n (QueryClientStateTm cid) RClientState (env_queryClientStateTm env n cid)"

definition queryConsensusStateTm ::
  "'w env \<Rightarrow> IbcClient \<Rightarrow> string \<Rightarrow> Height option \<Rightarrow> ('w, ConsensusState) promise" where
  "queryConsensusStateTm env n cid h =
     invoke n (QueryConsensusStateTm cid h) RConsensusState (env_queryConsensusStateTm env n cid h)"

definition header :: "'w env \<Rightarrow> IbcClient \<Rightarrow> int \<Rightarrow> ('w, Header) promise" where
  "header env n h = invoke n (GetHeader h) RHeader (env_header env n h)"

definition latestHeader :: "'w env \<Rightarrow> IbcClient \<Rightarrow> ('w, Header) promise" where
  "latestHeader env n = invoke n LatestHeader RHeader (env_latestHeader env n)"

definition waitOneBlock :: "'w env \<Rightarrow> IbcClient \<Rightarrow> ('w, unit) promise" where
  "waitOneBlock env n = invoke n WaitOneBlock (\<lambda>_. RUnit) (env_waitOneBlock env n)"

definition doUpdateClient :: "'w env \<Rightarrow> IbcClient \<Rightarrow> string \<Rightarrow> IbcClient \<Rightarrow> ('w, Height) promise" where
  "doUpdateClient env n cid srcClient =
     invoke n (DoUpdateClient cid srcClient) RHeight (env_doUpdateClient env n cid srcClient)"

definition createTendermintClient ::
  "'w env \<Rightarrow> IbcClient \<Rightarrow> ClientState \<Rightarrow> ConsensusState \<Rightarrow> ('w, string) promise" where
  "createTendermintClient env n cs cons =
     invoke n (CreateTendermintClient cs cons) RString (env_createTendermintClient env n cs cons)"

definition connOpenInit :: "'w env \<Rightarrow> IbcClient \<Rightarrow> string \<Rightarrow> string \<Rightarrow> ('w, string) promise" where
  "connOpenInit env n cid remoteCid =
     invoke n (ConnOpenInit cid remoteCid) RString (env_connOpenInit env n cid remoteCid)"

definition connOpenTry ::
  "'w env \<Rightarrow> IbcClient \<Rightarrow> string \<Rightarrow> ConnectionHandshakeProof \<Rightarrow> ('w, string) promise" where
  "connOpenTry env n cid proof =
     invoke n (ConnOpenTry cid proof) RString (env_connOpenTry env n cid proof)"

definition connOpenAck ::
  "'w env \<Rightarrow> IbcClient \<Rightarrow> string \<Rightarrow> ConnectionHandshakeProof \<Rightarrow> ('w, unit) promise" where
  "connOpenAck env n connId proof =
     invoke n (ConnOpenAck connId proof) (\<lambda>_. RUnit) (env_connOpenAck env n connId proof)"

definition connOpenConfirm :: "'w env \<Rightarrow> IbcClient \<Rightarrow> ConnectionHandshakeProof \<Rightarrow> ('w, unit) promise" where
  "connOpenConfirm env n proof =
     invoke n (ConnOpenConfirm proof) (\<lambda>_. RUnit) (env_connOpenConfirm env n proof)"

definition unreceivedPackets ::
  "'w env \<Rightarrow> IbcClient \<Rightarrow> string \<Rightarrow> string \<Rightarrow> int list \<Rightarrow> ('w, int list) promise" where
  "unreceivedPackets env n port channel seqs =
     invoke n (QueryUnreceivedPackets port channel seqs) RSequences
       (env_unreceivedPackets env n port channel seqs)"

definition unreceivedAcks ::
  "'w env \<Rightarrow> IbcClient \<Rightarrow> string \<Rightarrow> string \<Rightarrow> int list \<Rightarrow> ('w, int list) promise" where
  "unreceivedAcks env n port channel seqs =
     invoke n (QueryUnreceivedAcks port channel seqs) RSequences
       (env_unreceivedAcks env n port channel seqs)"

definition getPacketProof :: "'w env \<Rightarrow> IbcClient \<Rightarrow> Packet \<Rightarrow> Height \<Rightarrow> ('w, bytes) promise" where
  "getPacketProof env n p h = invoke n (GetPacketProof p h) RBytes (env_getPacketProof env n p h)"

definition getAckProof :: "'w env \<Rightarrow> IbcClient \<Rightarrow> AckWithMetadata \<Rightarrow> Height \<Rightarrow> ('w, bytes) promise" where
  "getAckProof env n a h = invoke n (GetAckProof a h) RBytes (env_getAckProof env n a h)"

definition receivePackets ::
  "'w env \<Rightarrow> IbcClient \<Rightarrow> Packet list \<Rightarrow> bytes list \<Rightarrow> Height \<Rightarrow> ('w, Log list \<times> int) promise" where
  "receivePackets env n ps proofs h =
     invoke n (ReceivePackets ps proofs h) (\<lambda>(logs, at). RTx logs at)
       (env_receivePackets env n ps proofs h)"

definition acknowledgePackets ::
  "'w env \<Rightarrow> IbcClient \<Rightarrow> AckWithMetadata list \<Rightarrow> bytes list \<Rightarrow> Height
     \<Rightarrow> ('w, Log list \<times> int) promise" where
  "acknowledgePackets env n acks proofs h =
     invoke n (AcknowledgePackets acks proofs h) (\<lambda>(logs, at). RTx logs at)
       (env_acknowledgePackets env n acks proofs h)"

definition getConnectionProof ::
  "'w env \<Rightarrow> IbcClient \<Rightarrow> string \<Rightarrow> string \<Rightarrow> Height option
     \<Rightarrow> ('w, ConnectionHandshakeProof) promise" where
  "getConnectionProof env n cid connId h =
     invoke n (GetConnectionProof cid connId h) RBytes (env_getConnectionProof env n cid connId h)"

definition querySentPackets :: "'w env \<Rightarrow> Endpoint \<Rightarrow> QueryOpts \<Rightarrow> ('w, PacketWithMetadata list) promise" where
  "querySentPackets env ep opts =
     invoke (client ep) (QuerySentPackets ep opts) RPackets (env_querySentPackets env ep opts)"

definition queryWrittenAcks :: "'w env \<Rightarrow> Endpoint \<Rightarrow> QueryOpts \<Rightarrow> ('w, AckWithMetadata list) promise" where
  "queryWrittenAcks env ep opts =
     invoke (client ep) (QueryWrittenAcks ep opts) RAcks (env_queryWrittenAcks env ep opts)"

text \<open>
  Modelled from the spec: \<^verbatim>\<open>buildCreateClientArgs\<close> of ibcclient.ts is missing. Section 4.3
  of the spec: "Each CreateClient call uses buildCreateClientArgs(remote, unbondingPeriod,
  trustingPeriod)", and section 3: a light client is created from "an initial
  client-state+consensus-state", with the remote chain's id, a latest height, the two
  periods, and a consensus state of root hash and next-validators hash. The helper reads
  the remote chain's id and latest header, which are queries, and broadcasts nothing.
  (The spec does not say where the revision number comes from, nor does link.ts; it is 0
  here.)
\<close>

definition buildCreateClientArgs ::
  "'w env \<Rightarrow> IbcClient \<Rightarrow> int \<Rightarrow> int \<Rightarrow> ('w, CreateClientArgs) promise" where
  "buildCreateClientArgs env remote unbondingPeriodSec trustPeriodSec =
     await (getChainId env remote) (\<lambda>remoteChainId.
     await (latestHeader env remote) (\<lambda>hdr.
       resolve
         \<lparr>clientState =
            \<lparr>chainId = remoteChainId,
             latestHeight = Some \<lparr>revisionNumber = 0, revisionHeight = hdr_height hdr\<rparr>,
             trustingPeriod = trustPeriodSec,
             unbondingPeriod = unbondingPeriodSec\<rparr>,
          consensusState =
            \<lparr>nextValidatorsHash = hdr_nextValidatorsHash hdr,
             root = Some \<lparr>hash = hdr_appHash hdr\<rparr>\<rparr>\<rparr>))"

text \<open>
  Modelled from the spec: \<^verbatim>\<open>prepareConnectionHandshake\<close> of ibcclient.ts is missing.
  Section 4.3 of the spec: "Build a handshake proof from A at a height known to B", the
  proofs being produced "by querying one chain at a consensus height known to the other",
  and section 2: the proof builder, "given a source client and a target header height,
  produces the Merkle proofs". The helper reads the height the destination's client knows
  and asks the source for the proof at that height: two queries, no broadcast.
\<close>

definition prepareConnectionHandshake ::
  "'w env \<Rightarrow> IbcClient \<Rightarrow> IbcClient \<Rightarrow> string \<Rightarrow> string \<Rightarrow> string
     \<Rightarrow> ('w, ConnectionHandshakeProof) promise" where
  "prepareConnectionHandshake env srcClient destClient clientIdSrc clientIdDest connIdSrc =
     await (queryClientStateTm env destClient clientIdDest) (\<lambda>known.
       getConnectionProof env srcClient clientIdSrc connIdSrc (latestHeight known))"

text \<open>
  Modelled from the spec: \<^verbatim>\<open>toIntHeight\<close> of utils.ts is missing; the Link uses it to fetch
  "the actual header ... at that height", the revision height of the client's latest
  height, and an absent height reads as 0 as in \<^verbatim>\<open>lastKnownHeader\<close>.
\<close>

definition toIntHeight :: "Height option \<Rightarrow> int" where
  "toIntHeight h = (case h of None \<Rightarrow> 0 | Some x \<Rightarrow> revisionHeight x)"

text \<open>
  \<^verbatim>\<open>arrayContentEquals\<close> of @cosmjs/utils compares two arrays by length and then element
  by element: equality of the lists.
\<close>

definition arrayContentEquals :: "bytes \<Rightarrow> bytes \<Rightarrow> bool" where
  "arrayContentEquals a b = (a = b)"

section \<open>The Link (src/lib/link.ts)\<close>

text \<open>\<^verbatim>\<open>getEnds(src)\<close>: the endpoint the selector names is the source, the other the destination.\<close>

definition getEnds :: "Link \<Rightarrow> Side \<Rightarrow> EndpointPair" where
  "getEnds link side =
     (if side = A then \<lparr>src = endA link, dest = endB link\<rparr>
      else \<lparr>src = endB link, dest = endA link\<rparr>)"

subsection \<open>Client updates\<close>

definition updateClient :: "'w env \<Rightarrow> Link \<Rightarrow> Side \<Rightarrow> ('w, Height) promise" where
  "updateClient env link sender =
     (let ends = getEnds link sender
      in doUpdateClient env (client (dest ends)) (clientID (dest ends)) (client (src ends)))"

text \<open>
  \<^verbatim>\<open>updateClientToHeight(source, minHeight)\<close>. \<^verbatim>\<open>knownHeight\<close> is
  \<^verbatim>\<open>client.latestHeight?.revisionHeight?.toNumber() ?? 0\<close>.
\<close>

definition updateClientToHeight :: "'w env \<Rightarrow> Link \<Rightarrow> Side \<Rightarrow> number \<Rightarrow> ('w, Height) promise" where
  "updateClientToHeight env link source minH =
     (let ends = getEnds link source in
      await (queryClientStateTm env (client (dest ends)) (clientID (dest ends))) (\<lambda>cl.
        let knownHeight = (case latestHeight cl of None \<Rightarrow> 0 | Some h \<Rightarrow> revisionHeight h) in
        if num_le minH (Fin knownHeight) \<and> latestHeight cl \<noteq> None
        then resolve (the (latestHeight cl))
        else
          await (latestHeader env (client (src ends))) (\<lambda>hdr.
            let curHeight = hdr_height hdr in
            await (if num_lt (Fin curHeight) minH then waitOneBlock env (client (src ends))
                   else resolve ())
              (\<lambda>_. updateClient env link source))))"

subsection \<open>Pending packets and acks\<close>

definition idDelim :: char where
  "idDelim = CHR '':''"

definition packetId :: "Packet \<Rightarrow> string" where
  "packetId p = destinationPort p @ [idDelim] @ destinationChannel p"

definition ackId :: "Packet \<Rightarrow> string" where
  "ackId p = sourcePort p @ [idDelim] @ sourceChannel p"

text \<open>\<^verbatim>\<open>s.split(d)\<close> for a separator of one character: the pieces between its occurrences.\<close>

fun splitOn :: "char \<Rightarrow> string \<Rightarrow> string list" where
  "splitOn d [] = [[]]"
| "splitOn d (c # cs) =
     (if c = d then [] # splitOn d cs
      else (case splitOn d cs of [] \<Rightarrow> [[c]] | w # ws \<Rightarrow> (c # w) # ws))"

text \<open>
  A \<^verbatim>\<open>Record<string, V>\<close> built by \<^verbatim>\<open>{...obj, [key]: v}\<close> is a list of entries in the order
  of insertion, which \<^verbatim>\<open>Object.entries\<close> follows: a key that is present keeps its place, a
  new one goes last. (The keys here hold the delimiter, so none reads as an array index,
  which JavaScript would order first.)
\<close>

fun assign :: "(string \<times> 'v) list \<Rightarrow> string \<Rightarrow> 'v \<Rightarrow> (string \<times> 'v) list" where
  "assign [] k v = [(k, v)]"
| "assign ((k', v') # obj) k v =
     (if k' = k then (k', v) # obj else (k', v') # assign obj k v)"

text \<open>
  \<^verbatim>\<open>filterUnreceived\<close>: the sequences are grouped by \<open>idFunc\<close>, the destination is asked for
  each group, and the answers are turned into sets. \<^verbatim>\<open>const [port, channel] =
  destination.split(idDelim)\<close> takes the first two pieces; both identifier functions put
  the delimiter in, so there are two, and the model raises where there would be none.
\<close>

definition filterUnreceived ::
  "Packet list \<Rightarrow> (string \<Rightarrow> string \<Rightarrow> int list \<Rightarrow> ('w, int list) promise) \<Rightarrow> (Packet \<Rightarrow> string)
     \<Rightarrow> ('w, (string \<times> int set) list) promise" where
  "filterUnreceived packets unreceivedQuery idFunc =
     (if length packets = 0 then resolve []
      else
        let packetsPerDestination =
              foldl (\<lambda>sorted p.
                       let key = idFunc p
                       in assign sorted key
                            ((case map_of sorted key of None \<Rightarrow> [] | Some seqs \<Rightarrow> seqs) @ [sequence p]))
                    [] packets
        in await (promiseAll
                    (map (\<lambda>(destination, sequences).
                            case splitOn idDelim destination of
                              port # channel # _ \<Rightarrow>
                                await (unreceivedQuery port channel sequences)
                                  (\<lambda>notfound. resolve (destination, notfound))
                            | _ \<Rightarrow> throw TypeError)
                         packetsPerDestination))
             (\<lambda>unreceivedResponses.
                resolve (foldl (\<lambda>nested (key, sequences). assign nested key (set sequences))
                               [] unreceivedResponses)))"

text \<open>
  \<^verbatim>\<open>all.filter((x) => unreceived[id(x)].has(seq(x)))\<close>: a key that is missing from
  \<open>unreceived\<close> makes \<^verbatim>\<open>.has\<close> a call on \<^verbatim>\<open>undefined\<close>, a TypeError.
\<close>

fun keepUnreceived ::
  "(string \<times> int set) list \<Rightarrow> ('a \<Rightarrow> string) \<Rightarrow> ('a \<Rightarrow> int) \<Rightarrow> 'a list \<Rightarrow> error + 'a list" where
  "keepUnreceived unreceived key seqOf [] = Inr []"
| "keepUnreceived unreceived key seqOf (x # xs) =
     (case map_of unreceived (key x) of
        None \<Rightarrow> Inl TypeError
      | Some found \<Rightarrow>
          (case keepUnreceived unreceived key seqOf xs of
             Inl e \<Rightarrow> Inl e
           | Inr ys \<Rightarrow> Inr (if seqOf x \<in> found then x # ys else ys)))"

definition getPendingPackets ::
  "'w env \<Rightarrow> Link \<Rightarrow> Side \<Rightarrow> QueryOpts \<Rightarrow> ('w, PacketWithMetadata list) promise" where
  "getPendingPackets env link source opts =
     (let ends = getEnds link source in
      await (querySentPackets env (src ends) opts) (\<lambda>allPackets.
        let toFilter = map packet allPackets;
            query = (\<lambda>port channel sequences.
                       unreceivedPackets env (client (dest ends)) port channel sequences)
        in await (filterUnreceived toFilter query packetId) (\<lambda>unreceived.
             case keepUnreceived unreceived (\<lambda>x. packetId (packet x)) (\<lambda>x. sequence (packet x))
                    allPackets of
               Inl e \<Rightarrow> throw e
             | Inr pending \<Rightarrow> resolve pending)))"

definition getPendingAcks ::
  "'w env \<Rightarrow> Link \<Rightarrow> Side \<Rightarrow> QueryOpts \<Rightarrow> ('w, AckWithMetadata list) promise" where
  "getPendingAcks env link source opts =
     (let ends = getEnds link source in
      await (queryWrittenAcks env (src ends) opts) (\<lambda>allAcks.
        let toFilter = map ack_originalPacket allAcks;
            query = (\<lambda>port channel sequences.
                       unreceivedAcks env (client (dest ends)) port channel sequences)
        in await (filterUnreceived toFilter query ackId) (\<lambda>unreceived.
             case keepUnreceived unreceived (\<lambda>x. ackId (ack_originalPacket x))
                    (\<lambda>x. sequence (ack_originalPacket x)) allAcks of
               Inl e \<Rightarrow> throw e
             | Inr pending \<Rightarrow> resolve pending)))"

subsection \<open>Relaying\<close>

text \<open>
  \<^verbatim>\<open>relayPackets(source, packets)\<close>; \<^verbatim>\<open>neededHeight\<close> is
  \<^verbatim>\<open>Math.max(...packets.map((x) => x.height)) + 1\<close>, and the acks parsed from the logs are
  tagged with the height of the receiving transaction.
\<close>

definition relayPackets ::
  "'w env \<Rightarrow> Link \<Rightarrow> Side \<Rightarrow> PacketWithMetadata list \<Rightarrow> ('w, AckWithMetadata list) promise" where
  "relayPackets env link source packets =
     (let ends = getEnds link source;
          neededHeight = plus1 (Math_max (map height packets))
      in await (updateClientToHeight env link source neededHeight) (\<lambda>headerHeight.
           let submit = map packet packets in
           await (promiseAll (map (\<lambda>p. getPacketProof env (client (src ends)) p headerHeight) submit))
             (\<lambda>proofs.
                await (receivePackets env (client (dest ends)) submit proofs headerHeight)
                  (\<lambda>(logs, at).
                     resolve (map (\<lambda>ack. \<lparr>ack_height = at,
                                            ack_acknowledgement = acknowledgement ack,
                                            ack_originalPacket = originalPacket ack\<rparr>)
                                  (env_parseAcksFromLogs env logs))))))"

definition relayAcks :: "'w env \<Rightarrow> Link \<Rightarrow> Side \<Rightarrow> AckWithMetadata list \<Rightarrow> ('w, int) promise" where
  "relayAcks env link source acks =
     (let ends = getEnds link source;
          neededHeight = plus1 (Math_max (map ack_height acks))
      in await (updateClientToHeight env link source neededHeight) (\<lambda>headerHeight.
           await (promiseAll (map (\<lambda>ack. getAckProof env (client (src ends)) ack headerHeight) acks))
             (\<lambda>proofs.
                await (acknowledgePackets env (client (dest ends)) acks proofs headerHeight)
                  (\<lambda>(logs, at). resolve at))))"

text \<open>
  \<^verbatim>\<open>checkAndRelayPacketsAndAcks(relayFrom)\<close>. Its last lines are
  \<^verbatim>\<open>// TODO return newer value from above queries\<close> and \<^verbatim>\<open>return relayFrom;\<close>.
\<close>

definition checkAndRelayPacketsAndAcks ::
  "'w env \<Rightarrow> Link \<Rightarrow> RelayedHeights \<Rightarrow> ('w, RelayedHeights) promise" where
  "checkAndRelayPacketsAndAcks env link relayFrom =
     await (promiseAll2
              (getPendingPackets env link A \<lparr>minHeight = packetHeighA relayFrom\<rparr>)
              (getPendingPackets env link B \<lparr>minHeight = packetHeightB relayFrom\<rparr>))
       (\<lambda>(packetsA, packetsB).
     await (promiseAll2 (relayPackets env link A packetsA) (relayPackets env link B packetsB))
       (\<lambda>_.
     await (promiseAll2
              (getPendingAcks env link A \<lparr>minHeight = ackHeightA relayFrom\<rparr>)
              (getPendingAcks env link B \<lparr>minHeight = ackHeightB relayFrom\<rparr>))
       (\<lambda>(acksA, acksB).
     await (promiseAll2 (relayAcks env link A acksA) (relayAcks env link B acksB))
       (\<lambda>_. resolve relayFrom))))"

subsection \<open>Construction\<close>

text \<open>
  \<^verbatim>\<open>assertHeadersMatchConsensusState(proofSide, clientId, height)\<close>. \<^verbatim>\<open>!hash\<close> holds of a
  missing value only (an empty \<^verbatim>\<open>Uint8Array\<close> is an object, hence truthy), and the hash is
  missing exactly when the root is: \<^verbatim>\<open>consensusState.root?.hash\<close>.
\<close>

definition assertHeadersMatchConsensusState ::
  "'w env \<Rightarrow> Link \<Rightarrow> Side \<Rightarrow> string \<Rightarrow> Height option \<Rightarrow> ('w, unit) promise" where
  "assertHeadersMatchConsensusState env link proofSide cid h =
     (let ends = getEnds link proofSide in
      await (promiseAll2
               (queryConsensusStateTm env (client (src ends)) cid h)
               (header env (client (dest ends)) (toIntHeight h)))
        (\<lambda>(cons, hdr).
           if \<not> arrayContentEquals (nextValidatorsHash cons) (hdr_nextValidatorsHash hdr)
           then throw NextValidatorHashMismatch
           else (case root cons of
                   None \<Rightarrow> throw RootHashMissing
                 | Some r \<Rightarrow>
                     if \<not> arrayContentEquals (hash r) (hdr_appHash hdr) then throw AppHashMismatch
                     else resolve ())))"

definition createWithExistingConnections ::
  "'w env \<Rightarrow> IbcClient \<Rightarrow> IbcClient \<Rightarrow> string \<Rightarrow> string \<Rightarrow> ('w, Link) promise" where
  "createWithExistingConnections env nodeA nodeB connA connB =
     await (promiseAll2 (queryConnection env nodeA connA) (queryConnection env nodeB connB))
       (\<lambda>(connectionA, connectionB).
     (case connectionA of None \<Rightarrow> throw (ConnectionNotFound connA) | Some cA \<Rightarrow>
     (case connectionB of None \<Rightarrow> throw (ConnectionNotFound connB) | Some cB \<Rightarrow>
     (case counterparty cA of None \<Rightarrow> throw (CounterpartyNotFound connA) | Some cpA \<Rightarrow>
     (case counterparty cB of None \<Rightarrow> throw (CounterpartyNotFound connB) | Some cpB \<Rightarrow>
     (if state cA \<noteq> STATE_OPEN then throw (ConnectionNotOpen A (state cA))
      else if state cB \<noteq> STATE_OPEN then throw (ConnectionNotOpen B (state cB))
      else
       (let clientIdA = clientId cA; clientIdB = clientId cB in
        if clientIdA \<noteq> cp_clientId cpB
        then throw (ClientIdMismatch clientIdA connA (cp_clientId cpB) connB)
        else if clientIdB \<noteq> cp_clientId cpA
        then throw (ClientIdMismatch clientIdB connB (cp_clientId cpA) connA)
        else
         await (promiseAll2 (getChainId env nodeA)
                 (promiseAll2 (getChainId env nodeB)
                   (promiseAll2 (queryClientStateTm env nodeA clientIdA)
                                (queryClientStateTm env nodeB clientIdB))))
           (\<lambda>(chainIdA, chainIdB, clientStateA, clientStateB).
             (if chainIdA \<noteq> chainId clientStateB
              then throw (ChainIdMismatch chainIdA connA (chainId clientStateA))
              else if chainIdB \<noteq> chainId clientStateA
              then throw (ChainIdMismatch chainIdB connB (chainId clientStateB))
              else
               (let endA' = \<lparr>client = nodeA, clientID = clientIdA, connectionID = connA\<rparr>;
                    endB' = \<lparr>client = nodeB, clientID = clientIdB, connectionID = connB\<rparr>;
                    link = \<lparr>endA = endA', endB = endB'\<rparr>
                in await (promiseAll2
                            (assertHeadersMatchConsensusState env link A clientIdA
                               (latestHeight clientStateA))
                            (assertHeadersMatchConsensusState env link B clientIdB
                               (latestHeight clientStateB)))
                     (\<lambda>_. resolve link)))))))))))"

text \<open>\<^verbatim>\<open>createClients(nodeA, nodeB)\<close> returns \<^verbatim>\<open>[clientIdA, clientIdB]\<close>.\<close>

definition createClients :: "'w env \<Rightarrow> IbcClient \<Rightarrow> IbcClient \<Rightarrow> ('w, string \<times> string) promise" where
  "createClients env nodeA nodeB =
     await (buildCreateClientArgs env nodeA genesisUnbondingTime 5000) (\<lambda>args.
     await (createTendermintClient env nodeB (clientState args) (consensusState args)) (\<lambda>clientIdB.
     await (buildCreateClientArgs env nodeB genesisUnbondingTime 5000) (\<lambda>args2.
     await (createTendermintClient env nodeA (clientState args2) (consensusState args2)) (\<lambda>clientIdA.
     resolve (clientIdA, clientIdB)))))"

definition createWithNewConnections :: "'w env \<Rightarrow> IbcClient \<Rightarrow> IbcClient \<Rightarrow> ('w, Link) promise" where
  "createWithNewConnections env nodeA nodeB =
     await (createClients env nodeA nodeB) (\<lambda>(clientIdA, clientIdB).
     await (connOpenInit env nodeA clientIdA clientIdB) (\<lambda>connIdA.
     await (prepareConnectionHandshake env nodeA nodeB clientIdA clientIdB connIdA) (\<lambda>proof.
     await (connOpenTry env nodeB clientIdB proof) (\<lambda>connIdB.
     await (prepareConnectionHandshake env nodeB nodeA clientIdB clientIdA connIdB) (\<lambda>proofAck.
     await (connOpenAck env nodeA connIdA proofAck) (\<lambda>_.
     await (prepareConnectionHandshake env nodeA nodeB clientIdA clientIdB connIdA) (\<lambda>proofConfirm.
     await (connOpenConfirm env nodeB proofConfirm) (\<lambda>_.
       let endA' = \<lparr>client = nodeA, clientID = clientIdA, connectionID = connIdA\<rparr>;
           endB' = \<lparr>client = nodeB, clientID = clientIdB, connectionID = connIdB\<rparr>
       in resolve \<lparr>endA = endA', endB = endB'\<rparr>))))))))"

section \<open>Resolving the connections of the app file (src/binary/ibc-setup/commands/ics20.ts)\<close>

text \<open>
  \<^verbatim>\<open>AppConfig\<close> (of types.ts, missing) is read here for two optional strings. A JavaScript
  string is falsy when it is \<^verbatim>\<open>undefined\<close> and when it is empty.
\<close>

record AppConfig =
  srcConnection :: "string option"
  destConnection :: "string option"

record Connections =
  conn_src :: string
  conn_dest :: string

definition truthy :: "string option \<Rightarrow> bool" where
  "truthy x = (case x of None \<Rightarrow> False | Some s \<Rightarrow> s \<noteq> [])"

text \<open>\<^verbatim>\<open>resolveConnections\<close>; \<^verbatim>\<open>null\<close> is \<open>None\<close>.\<close>

definition resolveConnections :: "AppConfig \<Rightarrow> error + Connections option" where
  "resolveConnections app =
     (if \<not> truthy (srcConnection app) \<and> truthy (destConnection app) then Inl NoSrcConnection
      else if truthy (srcConnection app) \<and> \<not> truthy (destConnection app) then Inl NoDestConnection
      else if truthy (srcConnection app) \<and> truthy (destConnection app)
      then (case (srcConnection app, destConnection app) of
              (Some s, Some d) \<Rightarrow> Inr (Some \<lparr>conn_src = s, conn_dest = d\<rparr>)
            | _ \<Rightarrow> Inr None)
      else Inr None)"

section \<open>Two chains to run the Link against\<close>

text \<open>
  Modelled from the spec: the methods of \<^verbatim>\<open>IbcClient\<close> and \<^verbatim>\<open>Endpoint\<close> are missing
  (ibcclient.ts, endpoint.ts). Sections 4.1 and 4.5 of the spec say what the three that
  move a light client do: \<^verbatim>\<open>latestHeader\<close> reports the chain's latest height,
  \<^verbatim>\<open>waitOneBlock\<close> "returns when the chain height has advanced at least once", and an
  update "fetches the latest header from source, submits it to destination, returns the
  new destination-known height of source". A world holds, for each chain, its height, the
  blocks it may gain beyond the one awaited, the latest height of each light client it
  hosts, and the packets and acks it has committed. The other answers are fixed, after the
  scenarios in section 8 of the spec: two chains whose connections are open and refer to
  each other, consensus states that agree with the headers, nothing received yet.
\<close>

record world =
  tipOf :: "IbcClient \<Rightarrow> int"
  extraBlocks :: "IbcClient \<Rightarrow> nat"
  knownHeight :: "IbcClient \<Rightarrow> string \<Rightarrow> Height option"
  sentPackets :: "IbcClient \<Rightarrow> PacketWithMetadata list"
  writtenAcks :: "IbcClient \<Rightarrow> AckWithMetadata list"

definition peer :: "IbcClient \<Rightarrow> IbcClient" where
  "peer n = (if n = 0 then 1 else 0)"

definition chainName :: "IbcClient \<Rightarrow> string" where
  "chainName n = (if n = 0 then ''chain-a'' else ''chain-b'')"

definition tmClient :: "IbcClient \<Rightarrow> string" where
  "tmClient n = (if n = 0 then ''07-tendermint-0'' else ''07-tendermint-1'')"

definition connName :: "IbcClient \<Rightarrow> string" where
  "connName n = (if n = 0 then ''connection-0'' else ''connection-1'')"

definition validatorsHash :: "IbcClient \<Rightarrow> bytes" where
  "validatorsHash n = (if n = 0 then [10] else [11])"

definition appHashOf :: "IbcClient \<Rightarrow> bytes" where
  "appHashOf n = (if n = 0 then [20] else [21])"

definition transferPacket :: Packet where
  "transferPacket = \<lparr>sequence = 1, sourcePort = ''transfer'', sourceChannel = ''channel-0'',
     destinationPort = ''transfer'', destinationChannel = ''channel-0'', data = [1, 2, 3]\<rparr>"

definition since :: "QueryOpts \<Rightarrow> int \<Rightarrow> bool" where
  "since opts h = (case minHeight opts of None \<Rightarrow> True | Some m \<Rightarrow> m \<le> h)"

definition twoChains :: "world env" where
  "twoChains = \<lparr>
     env_queryConnection = (\<lambda>n connId w.
       (Inr (if connId = connName n
             then Some \<lparr>clientId = tmClient n, state = STATE_OPEN,
                        counterparty = Some \<lparr>cp_clientId = tmClient (peer n),
                                               cp_connectionId = connName (peer n)\<rparr>\<rparr>
             else None), w)),
     env_getChainId = (\<lambda>n w. (Inr (chainName n), w)),
     env_queryClientStateTm = (\<lambda>n cid w.
       (Inr \<lparr>chainId = chainName (peer n), latestHeight = knownHeight w n cid,
              trustingPeriod = 5000, unbondingPeriod = 1814400\<rparr>, w)),
     env_queryConsensusStateTm = (\<lambda>n cid h w.
       (Inr \<lparr>nextValidatorsHash = validatorsHash (peer n),
              root = Some \<lparr>hash = appHashOf (peer n)\<rparr>\<rparr>, w)),
     env_header = (\<lambda>n h w.
       (Inr \<lparr>hdr_height = h, hdr_nextValidatorsHash = validatorsHash n,
              hdr_appHash = appHashOf n\<rparr>, w)),
     env_latestHeader = (\<lambda>n w.
       (Inr \<lparr>hdr_height = tipOf w n, hdr_nextValidatorsHash = validatorsHash n,
              hdr_appHash = appHashOf n\<rparr>, w)),
     env_waitOneBlock = (\<lambda>n w.
       (Inr (), w\<lparr>tipOf := (tipOf w)(n := tipOf w n + 1 + int (extraBlocks w n))\<rparr>)),
     env_doUpdateClient = (\<lambda>n cid srcClient w.
       let h = \<lparr>revisionNumber = 0, revisionHeight = tipOf w srcClient\<rparr>
       in (Inr h, w\<lparr>knownHeight := (knownHeight w)(n := (knownHeight w n)(cid := Some h))\<rparr>)),
     env_createTendermintClient = (\<lambda>n cs cons w.
       (Inr (tmClient n),
        w\<lparr>knownHeight := (knownHeight w)(n := (knownHeight w n)(tmClient n := latestHeight cs))\<rparr>)),
     env_connOpenInit = (\<lambda>n cid remoteCid w. (Inr (connName n), w)),
     env_connOpenTry = (\<lambda>n cid prf w. (Inr (connName n), w)),
     env_connOpenAck = (\<lambda>n connId prf w. (Inr (), w)),
     env_connOpenConfirm = (\<lambda>n prf w. (Inr (), w)),
     env_unreceivedPackets = (\<lambda>n port channel seqs w. (Inr seqs, w)),
     env_unreceivedAcks = (\<lambda>n port channel seqs w. (Inr seqs, w)),
     env_getPacketProof = (\<lambda>n p h w. (Inr [], w)),
     env_getAckProof = (\<lambda>n a h w. (Inr [], w)),
     env_receivePackets = (\<lambda>n ps proofs h w. (Inr (map (\<lambda>p. ''write_acknowledgement'') ps, tipOf w n), w)),
     env_acknowledgePackets = (\<lambda>n acks proofs h w. (Inr ([], tipOf w n), w)),
     env_getConnectionProof = (\<lambda>n cid connId h w. (Inr [], w)),
     env_querySentPackets = (\<lambda>ep opts w.
       (Inr (filter (\<lambda>p. since opts (height p)) (sentPackets w (client ep))), w)),
     env_queryWrittenAcks = (\<lambda>ep opts w.
       (Inr (filter (\<lambda>a. since opts (ack_height a)) (writtenAcks w (client ep))), w)),
     env_parseAcksFromLogs = (\<lambda>logs.
       map (\<lambda>l. \<lparr>acknowledgement = [1], originalPacket = transferPacket\<rparr>) logs)\<rparr>"

text \<open>A link between chain 0 (side A) and chain 1 (side B), and worlds to run it in.\<close>

definition demoLink :: Link where
  "demoLink = \<lparr>endA = \<lparr>client = 0, clientID = ''07-tendermint-0'', connectionID = ''connection-0''\<rparr>,
               endB = \<lparr>client = 1, clientID = ''07-tendermint-1'', connectionID = ''connection-1''\<rparr>\<rparr>"

definition demoWorld :: world where
  "demoWorld = \<lparr>
     tipOf = (\<lambda>n. if n = 0 then 5 else 50),
     extraBlocks = (\<lambda>n. 0),
     knownHeight = (\<lambda>n cid. if cid = tmClient n
                     then Some \<lparr>revisionNumber = 0, revisionHeight = (if n = 0 then 40 else 3)\<rparr>
                     else None),
     sentPackets = (\<lambda>n. []),
     writtenAcks = (\<lambda>n. [])\<rparr>"

text \<open>The same chains before any light client has a height.\<close>

definition freshWorld :: world where
  "freshWorld = demoWorld\<lparr>knownHeight := (\<lambda>n cid. None)\<rparr>"

definition start :: "'w \<Rightarrow> 'w st" where
  "start w = \<lparr>world = w, trace = []\<rparr>"

definition busyWorld :: world where
  "busyWorld = demoWorld\<lparr>tipOf := (\<lambda>n. if n = 0 then 103 else 50),
      sentPackets := (\<lambda>n. if n = 0 then [\<lparr>packet = transferPacket, height = 100\<rparr>] else [])\<rparr>"

definition noHeights :: RelayedHeights where
  "noHeights = \<lparr>packetHeighA = None, packetHeightB = None, ackHeightA = None, ackHeightB = None\<rparr>"

section \<open>Vocabulary of the properties\<close>

text \<open>
  A cursor field has not moved back: an absent field is unset, below every height.
\<close>

definition notBelow :: "int option \<Rightarrow> int option \<Rightarrow> bool" where
  "notBelow old new =
     (case old of None \<Rightarrow> True | Some a \<Rightarrow> (case new of None \<Rightarrow> False | Some b \<Rightarrow> a \<le> b))"

text \<open>The calls a run has added to the trace.\<close>

definition added :: "'w st \<Rightarrow> 'w st \<Rightarrow> event list" where
  "added s s' = drop (length (trace s)) (trace s')"

text \<open>A promise that broadcasts nothing, however it ends.\<close>

definition quiet :: "('w, 'a) promise \<Rightarrow> bool" where
  "quiet m \<longleftrightarrow> (\<forall>s. \<exists>evs. trace (snd (m s)) = trace s @ evs \<and> txs evs = [])"

text \<open>A trace none of whose calls failed.\<close>

definition answered :: "event list \<Rightarrow> bool" where
  "answered evs = list_all (\<lambda>(n, c, r). \<not> isl r) evs"

text \<open>
  A promise whose every failure either is a ConsensusError or follows a call that failed.
\<close>

definition faulting :: "('w, 'a) promise \<Rightarrow> bool" where
  "faulting m \<longleftrightarrow>
     (\<forall>s. \<exists>evs. trace (snd (m s)) = trace s @ evs \<and>
        (\<forall>e. fst (m s) = Inl e \<longrightarrow> kindOf e = ConsensusError \<or> \<not> answered evs))"

text \<open>
  The two chains, with headers whose app hash is not the one the light clients stored.
\<close>

definition forkedChains :: "world env" where
  "forkedChains = twoChains\<lparr>env_header := (\<lambda>n h w.
       (Inr \<lparr>hdr_height = h, hdr_nextValidatorsHash = validatorsHash n, hdr_appHash = [99]\<rparr>, w))\<rparr>"

section \<open>Running promises\<close>

lemma resolve_eq: "resolve a s = (r, s') \<longleftrightarrow> r = Inr a \<and> s' = s"
  by (auto simp: resolve_def)

lemma throw_eq: "throw e s = (r, s') \<longleftrightarrow> r = Inl e \<and> s' = s"
  by (auto simp: throw_def)

lemma await_Inr:
  "await m k s = (Inr b, s') \<longleftrightarrow> (\<exists>a s1. m s = (Inr a, s1) \<and> k a s1 = (Inr b, s'))"
  by (auto simp: await_def split: prod.splits sum.splits)

lemma promiseAll2_Inr:
  "promiseAll2 p q s = (Inr ab, s') \<longleftrightarrow>
     (\<exists>a b s1. p s = (Inr a, s1) \<and> q s1 = (Inr b, s') \<and> ab = (a, b))"
  by (auto simp: promiseAll2_def split: prod.splits sum.splits)

lemma invoke_Inr:
  "invoke n c answer f s = (Inr a, s') \<longleftrightarrow>
     (\<exists>w'. f (world s) = (Inr a, w') \<and>
           s' = \<lparr>world = w', trace = trace s @ [(n, c, Inr (answer a))]\<rparr>)"
  by (auto simp: invoke_def split: prod.splits)

lemma case_option_Inr:
  "(case x of None \<Rightarrow> throw e | Some y \<Rightarrow> f y) s = (Inr r, s')
     \<longleftrightarrow> (\<exists>y. x = Some y \<and> f y s = (Inr r, s'))"
  by (cases x) (auto simp: throw_eq)

lemma if_throw_Inr:
  "(if c then throw e else m) s = (Inr r, s') \<longleftrightarrow> (\<not> c \<and> m s = (Inr r, s'))"
  by (auto simp: throw_eq)

lemma run_pair: "fst p = r \<Longrightarrow> p = (r, snd p)"
  by (cases p) simp

lemmas call_defs =
  queryConnection_def getChainId_def queryClientStateTm_def queryConsensusStateTm_def
  header_def latestHeader_def waitOneBlock_def doUpdateClient_def createTendermintClient_def
  connOpenInit_def connOpenTry_def connOpenAck_def connOpenConfirm_def unreceivedPackets_def
  unreceivedAcks_def getPacketProof_def getAckProof_def receivePackets_def
  acknowledgePackets_def getConnectionProof_def
  querySentPackets_def queryWrittenAcks_def

text \<open>What evaluating a run on the two chains unfolds.\<close>

lemmas run_defs = Let_def await_def promiseAll2_def invoke_def resolve_def throw_def start_def
  added_def txs_def

lemmas demo_defs = twoChains_def demoLink_def demoWorld_def busyWorld_def freshWorld_def
  noHeights_def peer_def
  chainName_def tmClient_def connName_def validatorsHash_def appHashOf_def transferPacket_def
  since_def

lemmas link_defs = getEnds_def updateClient_def updateClientToHeight_def Math_max_def
  toDouble_def
  relayPackets_def relayAcks_def packetId_def ackId_def idDelim_def filterUnreceived_def
  getPendingPackets_def getPendingAcks_def checkAndRelayPacketsAndAcks_def

declare bitLength.simps [simp del]

section \<open>Side orientation\<close>

text \<open>
  C10: the side selector is a consistent involution. For every side \<open>s\<close>,
  \<open>otherSide (otherSide s) = s\<close>, and the ends seen from the other side are the ends seen
  from \<open>s\<close> swapped: its source is the destination of \<open>s\<close> and its destination the source.
\<close>

theorem otherSide_involution_getEnds_swap:
  "otherSide (otherSide s) = s \<and>
   src (getEnds link (otherSide s)) = dest (getEnds link s) \<and>
   dest (getEnds link (otherSide s)) = src (getEnds link s)"
  by (cases s) (simp_all add: getEnds_def)

section \<open>The height a relay needs\<close>

lemma foldl_max_Fin:
  "foldl (\<lambda>acc x. case acc of NegInfinity \<Rightarrow> Fin x | Fin a \<Rightarrow> Fin (max a x)) (Fin a) xs
     = Fin (Max (set (a # xs)))"
proof (induction xs arbitrary: a)
  case Nil
  show ?case by simp
next
  case (Cons x xs)
  have "Max (set (max a x # xs)) = Max (set (a # x # xs))"
    by (cases "xs = []") (simp_all add: max.assoc)
  with Cons show ?case by simp
qed

lemma Math_max_nonempty: "xs \<noteq> [] \<Longrightarrow> Math_max xs = Fin (Max (set xs))"
  by (cases xs) (simp_all add: Math_max_def foldl_max_Fin del: set_simps)

lemma toDouble_exact: "\<bar>m\<bar> \<le> 9007199254740992 \<Longrightarrow> toDouble m = m"
  by (simp add: toDouble_def Let_def)

lemma needed_exact:
  assumes "xs \<noteq> []" and "\<forall>y \<in> set xs. \<bar>y\<bar> < 9007199254740992"
  shows "plus1 (Math_max xs) = Fin (Max (set xs) + 1)"
proof -
  from assms(1) have "Max (set xs) \<in> set xs" by simp
  with assms(2) have "\<bar>Max (set xs)\<bar> < 9007199254740992" by blast
  then have "\<bar>Max (set xs) + 1\<bar> \<le> 9007199254740992" by linarith
  then have "toDouble (Max (set xs) + 1) = Max (set xs) + 1" by (rule toDouble_exact)
  with assms(1) show ?thesis by (simp add: Math_max_nonempty)
qed

lemma needed_above:
  assumes "x \<in> set xs" and "\<forall>y \<in> set xs. \<bar>y\<bar> < 9007199254740992"
  shows "num_lt (Fin x) (plus1 (Math_max xs))"
proof -
  from assms(1) have ne: "xs \<noteq> []" by auto
  from assms(1) have "x \<le> Max (set xs)" by simp
  with needed_exact[OF ne assms(2)] show ?thesis by simp
qed

lemma bitLength_above_2_53: "bitLength 9007199254740993 = 54"
  by code_simp

text \<open>
  C4, as the claim states it, fails: for one packet committed at height \<open>2^53\<close> the
  sum \<open>2^53 + 1\<close> is no double and rounds to \<open>2^53\<close>, so \<open>neededHeight\<close> is the commit
  height itself, neither the maximum plus one nor strictly above it.
\<close>

theorem neededHeight_rounds_at_2_53:
  "plus1 (Math_max (map height [\<lparr>packet = transferPacket, height = 9007199254740992\<rparr>]))
     = Fin 9007199254740992 \<and>
   \<not> num_lt (Fin (height \<lparr>packet = transferPacket, height = 9007199254740992\<rparr>))
        (plus1 (Math_max (map height [\<lparr>packet = transferPacket, height = 9007199254740992\<rparr>])))"
  by (simp add: Math_max_def toDouble_def bitLength_above_2_53)

text \<open>
  C4, amended: for every non-empty list of packets given to \<open>relayPackets\<close>, and every
  non-empty list of acks given to \<open>relayAcks\<close>, whose commit heights are all below
  \<open>2^53\<close> in magnitude, the height that is computed as \<open>neededHeight\<close> and handed to
  \<open>updateClientToHeight\<close> is the largest commit height of the inputs plus one, and so it
  is strictly above the commit height of every input.
\<close>

theorem neededHeight_is_max_plus_one:
  "(packets \<noteq> [] \<and> (\<forall>p \<in> set packets. \<bar>height p\<bar> < 9007199254740992) \<longrightarrow>
      plus1 (Math_max (map height packets)) = Fin (Max (height ` set packets) + 1) \<and>
      (\<forall>p \<in> set packets. num_lt (Fin (height p)) (plus1 (Math_max (map height packets)))) \<and>
      relayPackets env link source packets =
        await (updateClientToHeight env link source (Fin (Max (height ` set packets) + 1)))
          (\<lambda>headerHeight.
             await (promiseAll (map (\<lambda>p. getPacketProof env (client (src (getEnds link source))) p
                                         headerHeight) (map packet packets)))
               (\<lambda>proofs.
                  await (receivePackets env (client (dest (getEnds link source)))
                           (map packet packets) proofs headerHeight)
                    (\<lambda>(logs, at).
                       resolve (map (\<lambda>ack. \<lparr>ack_height = at,
                                              ack_acknowledgement = acknowledgement ack,
                                              ack_originalPacket = originalPacket ack\<rparr>)
                                    (env_parseAcksFromLogs env logs)))))) \<and>
   (acks \<noteq> [] \<and> (\<forall>a \<in> set acks. \<bar>ack_height a\<bar> < 9007199254740992) \<longrightarrow>
      plus1 (Math_max (map ack_height acks)) = Fin (Max (ack_height ` set acks) + 1) \<and>
      (\<forall>a \<in> set acks. num_lt (Fin (ack_height a)) (plus1 (Math_max (map ack_height acks)))) \<and>
      relayAcks env link source acks =
        await (updateClientToHeight env link source (Fin (Max (ack_height ` set acks) + 1)))
          (\<lambda>headerHeight.
             await (promiseAll (map (\<lambda>ack. getAckProof env (client (src (getEnds link source))) ack
                                           headerHeight) acks))
               (\<lambda>proofs.
                  await (acknowledgePackets env (client (dest (getEnds link source))) acks proofs
                           headerHeight)
                    (\<lambda>(logs, at). resolve at))))"
proof (intro conjI impI ballI)
  assume h: "packets \<noteq> [] \<and> (\<forall>p \<in> set packets. \<bar>height p\<bar> < 9007199254740992)"
  then have b: "\<forall>y \<in> set (map height packets). \<bar>y\<bar> < 9007199254740992" by simp
  from h have "map height packets \<noteq> []" by simp
  from needed_exact[OF this b]
  show m: "plus1 (Math_max (map height packets)) = Fin (Max (height ` set packets) + 1)"
    by simp
  show "relayPackets env link source packets =
        await (updateClientToHeight env link source (Fin (Max (height ` set packets) + 1)))
          (\<lambda>headerHeight.
             await (promiseAll (map (\<lambda>p. getPacketProof env (client (src (getEnds link source))) p
                                         headerHeight) (map packet packets)))
               (\<lambda>proofs.
                  await (receivePackets env (client (dest (getEnds link source)))
                           (map packet packets) proofs headerHeight)
                    (\<lambda>(logs, at).
                       resolve (map (\<lambda>ack. \<lparr>ack_height = at,
                                              ack_acknowledgement = acknowledgement ack,
                                              ack_originalPacket = originalPacket ack\<rparr>)
                                    (env_parseAcksFromLogs env logs)))))"
    unfolding relayPackets_def Let_def m ..
  fix p assume "p \<in> set packets"
  then have "height p \<in> set (map height packets)" by simp
  from needed_above[OF this b]
  show "num_lt (Fin (height p)) (plus1 (Math_max (map height packets)))" .
next
  assume h: "acks \<noteq> [] \<and> (\<forall>a \<in> set acks. \<bar>ack_height a\<bar> < 9007199254740992)"
  then have b: "\<forall>y \<in> set (map ack_height acks). \<bar>y\<bar> < 9007199254740992" by simp
  from h have "map ack_height acks \<noteq> []" by simp
  from needed_exact[OF this b]
  show m: "plus1 (Math_max (map ack_height acks)) = Fin (Max (ack_height ` set acks) + 1)"
    by simp
  show "relayAcks env link source acks =
        await (updateClientToHeight env link source (Fin (Max (ack_height ` set acks) + 1)))
          (\<lambda>headerHeight.
             await (promiseAll (map (\<lambda>ack. getAckProof env (client (src (getEnds link source))) ack
                                           headerHeight) acks))
               (\<lambda>proofs.
                  await (acknowledgePackets env (client (dest (getEnds link source))) acks proofs
                           headerHeight)
                    (\<lambda>(logs, at). resolve at)))"
    unfolding relayAcks_def Let_def m ..
  fix a assume "a \<in> set acks"
  then have "ack_height a \<in> set (map ack_height acks)" by simp
  from needed_above[OF this b]
  show "num_lt (Fin (ack_height a)) (plus1 (Math_max (map ack_height acks)))" .
qed

theorem neededHeight_is_max_plus_one_witness:
  "plus1 (Math_max (map height [\<lparr>packet = transferPacket, height = 100\<rparr>,
                                \<lparr>packet = transferPacket, height = 103\<rparr>,
                                \<lparr>packet = transferPacket, height = 101\<rparr>])) = Fin 104 \<and>
   plus1 (Math_max (map ack_height [\<lparr>ack_height = 7, ack_acknowledgement = [1],
                                     ack_originalPacket = transferPacket\<rparr>])) = Fin 8"
  using neededHeight_is_max_plus_one
    [where env = twoChains and link = demoLink and source = A
       and packets = "[\<lparr>packet = transferPacket, height = 100\<rparr>,
                       \<lparr>packet = transferPacket, height = 103\<rparr>,
                       \<lparr>packet = transferPacket, height = 101\<rparr>]"
       and acks = "[\<lparr>ack_height = 7, ack_acknowledgement = [1],
                     ack_originalPacket = transferPacket\<rparr>]"]
  by simp

section \<open>The relay iteration and its cursor\<close>

lemma checkAndRelay_returns_input:
  "checkAndRelayPacketsAndAcks env link relayFrom s = (Inr out, s') \<Longrightarrow> out = relayFrom"
  by (auto simp: checkAndRelayPacketsAndAcks_def await_Inr resolve_eq)

text \<open>
  C8: cursor monotonicity. For every input cursor, every field of the cursor that a
  successful \<open>checkAndRelayPacketsAndAcks\<close> returns is at or above the same field of the
  input, an absent field counting as unset.
\<close>

theorem cursor_monotone:
  assumes "fst (checkAndRelayPacketsAndAcks env link relayFrom s) = Inr out"
  shows "notBelow (packetHeighA relayFrom) (packetHeighA out) \<and>
         notBelow (packetHeightB relayFrom) (packetHeightB out) \<and>
         notBelow (ackHeightA relayFrom) (ackHeightA out) \<and>
         notBelow (ackHeightB relayFrom) (ackHeightB out)"
proof -
  from assms have "checkAndRelayPacketsAndAcks env link relayFrom s
      = (Inr out, snd (checkAndRelayPacketsAndAcks env link relayFrom s))"
    by (rule run_pair)
  then have "out = relayFrom"
    by (rule checkAndRelay_returns_input)
  then show ?thesis
    by (simp add: notBelow_def split: option.splits)
qed

lemma busy_run:
  "fst (checkAndRelayPacketsAndAcks twoChains demoLink
          \<lparr>packetHeighA = Some 90, packetHeightB = None, ackHeightA = Some 7, ackHeightB = None\<rparr>
          (start busyWorld))
   = Inr \<lparr>packetHeighA = Some 90, packetHeightB = None, ackHeightA = Some 7, ackHeightB = None\<rparr>"
  by (simp add: link_defs call_defs run_defs demo_defs)

theorem cursor_monotone_witness:
  "fst (checkAndRelayPacketsAndAcks twoChains demoLink
          \<lparr>packetHeighA = Some 90, packetHeightB = None, ackHeightA = Some 7, ackHeightB = None\<rparr>
          (start busyWorld))
     = Inr \<lparr>packetHeighA = Some 90, packetHeightB = None, ackHeightA = Some 7, ackHeightB = None\<rparr> \<and>
   notBelow (Some 90) (Some 90) \<and> notBelow None None \<and> notBelow (Some 7) (Some 7)"
  using cursor_monotone[OF busy_run] busy_run by simp

text \<open>
  C1: a successful \<open>checkAndRelayPacketsAndAcks\<close> should return, in each of the four
  fields, the larger of the input field and the highest source height processed in that
  category. The code returns its argument: started with no heights on a world where
  chain 0 has a pending packet committed at height 100, it relays that packet to chain 1
  and returns the cursor with no heights, where the packet height of side A should be 100.
\<close>

theorem cursor_not_advanced:
  "sentPackets busyWorld 0 = [\<lparr>packet = transferPacket, height = 100\<rparr>] \<and>
   fst (checkAndRelayPacketsAndAcks twoChains demoLink noHeights (start busyWorld)) = Inr noHeights \<and>
   (1, ReceivePackets [transferPacket] [[]] \<lparr>revisionNumber = 0, revisionHeight = 103\<rparr>)
     \<in> set (txs (trace (snd (checkAndRelayPacketsAndAcks twoChains demoLink noHeights
                                (start busyWorld))))) \<and>
   packetHeighA noHeights = None"
  by (simp add: link_defs call_defs run_defs demo_defs)

section \<open>Relaying no packets\<close>

text \<open>
  C2: \<open>relayPackets\<close> on the empty list should broadcast nothing on the destination and
  return no acks. The code has no case for the empty list: \<open>neededHeight\<close> is
  \<^verbatim>\<open>-Infinity\<close>, which any known height of the destination's client reaches, and
  \<open>receivePackets\<close> is called with no packets. On the two chains the call from side A
  returns no acks and broadcasts one transaction on chain 1; where the client of chain 1
  has no height yet, it broadcasts a client update as well.
\<close>

theorem relayPackets_empty_broadcasts:
  "fst (relayPackets twoChains demoLink A [] (start demoWorld)) = Inr [] \<and>
   txs (trace (snd (relayPackets twoChains demoLink A [] (start demoWorld))))
     = [(1, ReceivePackets [] [] \<lparr>revisionNumber = 0, revisionHeight = 3\<rparr>)] \<and>
   fst (relayPackets twoChains demoLink A [] (start freshWorld)) = Inr [] \<and>
   txs (trace (snd (relayPackets twoChains demoLink A [] (start freshWorld))))
     = [(1, DoUpdateClient ''07-tendermint-1'' 0),
        (1, ReceivePackets [] [] \<lparr>revisionNumber = 0, revisionHeight = 5\<rparr>)]"
  by (simp add: link_defs call_defs run_defs demo_defs)

section \<open>Bringing a client up to a height\<close>

text \<open>
  C3: the height \<open>updateClientToHeight\<close> returns should be at or above \<open>minHeight\<close>, as its
  own comment says ("Ensures the dest has a proof of at least minHeight from source").
  The code waits for one block, in an \<^verbatim>\<open>if\<close>, and then updates to wherever the source
  is: with chain 0 at height 5 and chain 1 knowing it at height 3, the call for source A
  and height 10 waits one block, updates the client and returns height 6.
\<close>

theorem updateClientToHeight_below_minHeight:
  "tipOf demoWorld 0 = 5 \<and>
   fst (updateClientToHeight twoChains demoLink A (Fin 10) (start demoWorld))
     = Inr \<lparr>revisionNumber = 0, revisionHeight = 6\<rparr> \<and>
   \<not> num_le (Fin 10) (Fin (revisionHeight \<lparr>revisionNumber = 0, revisionHeight = 6\<rparr>))"
  by (simp add: link_defs call_defs run_defs demo_defs)

section \<open>A link over new connections\<close>

text \<open>
  C5: a successful \<open>createWithNewConnections nodeA nodeB\<close> broadcasts exactly six
  transactions, in this order: CreateClient on B, with a client state that carries the
  chain id of A, the unbonding period 1814400 and the trusting period 5000; CreateClient
  on A, with the chain id of B and the same periods; ConnOpenInit on A; ConnOpenTry on B;
  ConnOpenAck on A; ConnOpenConfirm on B. Between them it only queries: the chain id and
  latest header of the chain a client is built for, and, before each of the last three,
  the height the receiving chain's client knows and the proof at that height. The Link
  it returns holds the client ids and the connection ids these transactions answered.
\<close>

theorem createWithNewConnections_sequence:
  assumes "createWithNewConnections env nodeA nodeB s = (Inr link, s')"
  shows "\<exists>chA hdrA csA consA cidB chB hdrB csB consB cidA connIdA known1 prf connIdB
           known2 proofAck known3 proofConfirm.
     csA = \<lparr>chainId = chA,
            latestHeight = Some \<lparr>revisionNumber = 0, revisionHeight = hdr_height hdrA\<rparr>,
            trustingPeriod = 5000, unbondingPeriod = 1814400\<rparr> \<and>
     consA = \<lparr>nextValidatorsHash = hdr_nextValidatorsHash hdrA,
              root = Some \<lparr>hash = hdr_appHash hdrA\<rparr>\<rparr> \<and>
     csB = \<lparr>chainId = chB,
            latestHeight = Some \<lparr>revisionNumber = 0, revisionHeight = hdr_height hdrB\<rparr>,
            trustingPeriod = 5000, unbondingPeriod = 1814400\<rparr> \<and>
     consB = \<lparr>nextValidatorsHash = hdr_nextValidatorsHash hdrB,
              root = Some \<lparr>hash = hdr_appHash hdrB\<rparr>\<rparr> \<and>
     added s s' =
      [(nodeA, GetChainId, Inr (RString chA)),
       (nodeA, LatestHeader, Inr (RHeader hdrA)),
       (nodeB, CreateTendermintClient csA consA, Inr (RString cidB)),
       (nodeB, GetChainId, Inr (RString chB)),
       (nodeB, LatestHeader, Inr (RHeader hdrB)),
       (nodeA, CreateTendermintClient csB consB, Inr (RString cidA)),
       (nodeA, ConnOpenInit cidA cidB, Inr (RString connIdA)),
       (nodeB, QueryClientStateTm cidB, Inr (RClientState known1)),
       (nodeA, GetConnectionProof cidA connIdA (latestHeight known1), Inr (RBytes prf)),
       (nodeB, ConnOpenTry cidB prf, Inr (RString connIdB)),
       (nodeA, QueryClientStateTm cidA, Inr (RClientState known2)),
       (nodeB, GetConnectionProof cidB connIdB (latestHeight known2), Inr (RBytes proofAck)),
       (nodeA, ConnOpenAck connIdA proofAck, Inr RUnit),
       (nodeB, QueryClientStateTm cidB, Inr (RClientState known3)),
       (nodeA, GetConnectionProof cidA connIdA (latestHeight known3), Inr (RBytes proofConfirm)),
       (nodeB, ConnOpenConfirm proofConfirm, Inr RUnit)] \<and>
     txs (added s s') =
      [(nodeB, CreateTendermintClient csA consA),
       (nodeA, CreateTendermintClient csB consB),
       (nodeA, ConnOpenInit cidA cidB),
       (nodeB, ConnOpenTry cidB prf),
       (nodeA, ConnOpenAck connIdA proofAck),
       (nodeB, ConnOpenConfirm proofConfirm)] \<and>
     link = \<lparr>endA = \<lparr>client = nodeA, clientID = cidA, connectionID = connIdA\<rparr>,
              endB = \<lparr>client = nodeB, clientID = cidB, connectionID = connIdB\<rparr>\<rparr>"
  using assms
  unfolding createWithNewConnections_def createClients_def Let_def genesisUnbondingTime_def
    buildCreateClientArgs_def prepareConnectionHandshake_def getChainId_def latestHeader_def
    queryClientStateTm_def getConnectionProof_def createTendermintClient_def connOpenInit_def
    connOpenTry_def connOpenAck_def connOpenConfirm_def
  by (clarsimp simp: await_Inr invoke_Inr resolve_eq added_def txs_def)

lemma new_run:
  "fst (createWithNewConnections twoChains 0 1 (start demoWorld)) = Inr demoLink"
  by (simp add: createWithNewConnections_def createClients_def genesisUnbondingTime_def
        buildCreateClientArgs_def prepareConnectionHandshake_def call_defs run_defs demo_defs)

theorem createWithNewConnections_sequence_witness:
  "fst (createWithNewConnections twoChains 0 1 (start demoWorld)) = Inr demoLink \<and>
   map fst (txs (added (start demoWorld)
                   (snd (createWithNewConnections twoChains 0 1 (start demoWorld)))))
     = [1, 0, 0, 1, 0, 1]"
proof -
  from createWithNewConnections_sequence[OF run_pair[OF new_run]]
  have "map fst (txs (added (start demoWorld)
                   (snd (createWithNewConnections twoChains 0 1 (start demoWorld)))))
     = [1, 0, 0, 1, 0, 1]"
    by auto
  with new_run show ?thesis by simp
qed

section \<open>The connections of the app file\<close>

text \<open>
  C9, as the claim states it, fails: with \<open>srcConnection\<close> set to the empty string and
  \<open>destConnection\<close> absent the result is \<^verbatim>\<open>null\<close> and no error, and with \<open>srcConnection\<close>
  set to the empty string and \<open>destConnection\<close> set to a connection the result is an error
  and not the pair.
\<close>

theorem resolveConnections_empty_string:
  "resolveConnections \<lparr>srcConnection = Some [], destConnection = None\<rparr> = Inr None \<and>
   resolveConnections \<lparr>srcConnection = Some [], destConnection = Some ''connection-0''\<rparr>
     = Inl NoSrcConnection"
  by (simp add: resolveConnections_def truthy_def)

text \<open>
  C9, amended: \<open>resolveConnections\<close> fails exactly when one of \<open>srcConnection\<close> and
  \<open>destConnection\<close> is a non-empty string and the other is absent or empty, and the error
  is then a ConfigError; when both are non-empty strings it returns that pair; when each
  is absent or empty it returns \<^verbatim>\<open>null\<close>.
\<close>

theorem resolveConnections_truthy:
  "(isl (resolveConnections app) \<longleftrightarrow> truthy (srcConnection app) \<noteq> truthy (destConnection app)) \<and>
   (\<forall>e. resolveConnections app = Inl e \<longrightarrow> kindOf e = ConfigError) \<and>
   (\<forall>a b. srcConnection app = Some a \<and> a \<noteq> [] \<and> destConnection app = Some b \<and> b \<noteq> [] \<longrightarrow>
      resolveConnections app = Inr (Some \<lparr>conn_src = a, conn_dest = b\<rparr>)) \<and>
   (\<not> truthy (srcConnection app) \<and> \<not> truthy (destConnection app) \<longrightarrow>
      resolveConnections app = Inr None)"
  by (auto simp: resolveConnections_def truthy_def split: option.splits)

theorem resolveConnections_truthy_witness:
  "resolveConnections \<lparr>srcConnection = Some ''connection-0'', destConnection = Some ''connection-1''\<rparr>
     = Inr (Some \<lparr>conn_src = ''connection-0'', conn_dest = ''connection-1''\<rparr>) \<and>
   isl (resolveConnections \<lparr>srcConnection = Some ''connection-0'', destConnection = None\<rparr>) \<and>
   resolveConnections \<lparr>srcConnection = None, destConnection = None\<rparr> = Inr None"
  using resolveConnections_truthy
          [of "\<lparr>srcConnection = Some ''connection-0'', destConnection = Some ''connection-1''\<rparr>"]
        resolveConnections_truthy
          [of "\<lparr>srcConnection = Some ''connection-0'', destConnection = None\<rparr>"]
        resolveConnections_truthy [of "\<lparr>srcConnection = None, destConnection = None\<rparr>"]
  by (simp add: truthy_def)

section \<open>A link over existing connections\<close>

lemma txs_append: "txs (xs @ ys) = txs xs @ txs ys"
  by (simp add: txs_def)

lemma answered_append: "answered (xs @ ys) \<longleftrightarrow> answered xs \<and> answered ys"
  by (simp add: answered_def)

lemma quiet_resolve: "quiet (resolve a)"
  by (simp add: quiet_def resolve_def txs_def)

lemma quiet_throw: "quiet (throw e)"
  by (simp add: quiet_def throw_def txs_def)

lemma quiet_await:
  assumes "quiet m" and "\<And>a. quiet (k a)"
  shows "quiet (await m k)"
  unfolding quiet_def
proof
  fix s
  obtain r s1 where ms: "m s = (r, s1)" by (cases "m s")
  from assms(1) obtain e1 where e1: "trace s1 = trace s @ e1" "txs e1 = []"
    unfolding quiet_def using ms by (metis snd_conv)
  show "\<exists>evs. trace (snd (await m k s)) = trace s @ evs \<and> txs evs = []"
  proof (cases r)
    case (Inl e)
    with ms e1 show ?thesis by (auto simp: await_def)
  next
    case (Inr a)
    from assms(2)[of a] obtain e2 where e2: "trace (snd (k a s1)) = trace s1 @ e2" "txs e2 = []"
      unfolding quiet_def by blast
    with ms e1 Inr show ?thesis by (auto simp: await_def txs_append)
  qed
qed

lemma quiet_promiseAll2:
  assumes "quiet p" and "quiet q"
  shows "quiet (promiseAll2 p q)"
  unfolding quiet_def
proof
  fix s
  obtain r1 s1 where ps: "p s = (r1, s1)" by (cases "p s")
  obtain r2 s2 where qs: "q s1 = (r2, s2)" by (cases "q s1")
  from assms(1) obtain e1 where e1: "trace s1 = trace s @ e1" "txs e1 = []"
    unfolding quiet_def using ps by (metis snd_conv)
  from assms(2) obtain e2 where e2: "trace s2 = trace s1 @ e2" "txs e2 = []"
    unfolding quiet_def using qs by (metis snd_conv)
  from ps qs e1 e2 show "\<exists>evs. trace (snd (promiseAll2 p q s)) = trace s @ evs \<and> txs evs = []"
    by (auto simp: promiseAll2_def txs_append)
qed

lemma quiet_invoke: "\<not> is_tx c \<Longrightarrow> quiet (invoke n c answer f)"
  by (auto simp: quiet_def invoke_def txs_def split: prod.splits)

lemmas quiet_intros = quiet_await quiet_promiseAll2 quiet_invoke quiet_throw quiet_resolve

lemma quiet_assert: "quiet (assertHeadersMatchConsensusState env link side cid h)"
  unfolding assertHeadersMatchConsensusState_def Let_def queryConsensusStateTm_def header_def
  by (auto intro!: quiet_intros split: option.splits)

lemma quiet_createWithExisting: "quiet (createWithExistingConnections env nodeA nodeB connA connB)"
  unfolding createWithExistingConnections_def Let_def queryConnection_def getChainId_def
    queryClientStateTm_def
  by (auto intro!: quiet_intros quiet_assert split: option.splits)

lemma faulting_resolve: "faulting (resolve a)"
  by (simp add: faulting_def resolve_def)

lemma faulting_throw: "kindOf e = ConsensusError \<Longrightarrow> faulting (throw e)"
  by (simp add: faulting_def throw_def)

lemma faulting_invoke:
  fixes f :: "'w \<Rightarrow> (error + 'a) \<times> 'w"
  shows "faulting (invoke n c answer f)"
  unfolding faulting_def
proof
  fix s :: "'w st"
  obtain r w' where f: "f (world s) = (r, w')" by (cases "f (world s)")
  then have "trace (snd (invoke n c answer f s)) = trace s @ [(n, c, map_sum id answer r)]"
    and "fst (invoke n c answer f s) = r"
    by (simp_all add: invoke_def)
  then show "\<exists>evs. trace (snd (invoke n c answer f s)) = trace s @ evs \<and>
        (\<forall>e. fst (invoke n c answer f s) = Inl e \<longrightarrow> kindOf e = ConsensusError \<or> \<not> answered evs)"
    by (auto simp: answered_def)
qed

lemma faulting_await:
  assumes "faulting m" and "\<And>a. faulting (k a)"
  shows "faulting (await m k)"
  unfolding faulting_def
proof
  fix s
  obtain r s1 where ms: "m s = (r, s1)" by (cases "m s")
  from assms(1) obtain e1 where e1: "trace s1 = trace s @ e1"
    "\<And>e. r = Inl e \<Longrightarrow> kindOf e = ConsensusError \<or> \<not> answered e1"
    unfolding faulting_def using ms by (metis fst_conv snd_conv)
  show "\<exists>evs. trace (snd (await m k s)) = trace s @ evs \<and>
         (\<forall>e. fst (await m k s) = Inl e \<longrightarrow> kindOf e = ConsensusError \<or> \<not> answered evs)"
  proof (cases r)
    case (Inl e)
    with ms e1 show ?thesis by (auto simp: await_def)
  next
    case (Inr a)
    from assms(2)[of a] obtain e2 where e2: "trace (snd (k a s1)) = trace s1 @ e2"
      "\<And>e. fst (k a s1) = Inl e \<Longrightarrow> kindOf e = ConsensusError \<or> \<not> answered e2"
      unfolding faulting_def by blast
    from ms Inr have "await m k s = k a s1" by (simp add: await_def)
    with e1(1) e2 show ?thesis
      by (intro exI[of _ "e1 @ e2"]) (auto simp: answered_append)
  qed
qed

lemma faulting_promiseAll2:
  assumes "faulting p" and "faulting q"
  shows "faulting (promiseAll2 p q)"
  unfolding faulting_def
proof
  fix s
  obtain r1 s1 where ps: "p s = (r1, s1)" by (cases "p s")
  obtain r2 s2 where qs: "q s1 = (r2, s2)" by (cases "q s1")
  from assms(1) obtain e1 where e1: "trace s1 = trace s @ e1"
    "\<And>e. r1 = Inl e \<Longrightarrow> kindOf e = ConsensusError \<or> \<not> answered e1"
    unfolding faulting_def using ps by (metis fst_conv snd_conv)
  from assms(2) obtain e2 where e2: "trace s2 = trace s1 @ e2"
    "\<And>e. r2 = Inl e \<Longrightarrow> kindOf e = ConsensusError \<or> \<not> answered e2"
    unfolding faulting_def using qs by (metis fst_conv snd_conv)
  from ps qs e1 e2
  show "\<exists>evs. trace (snd (promiseAll2 p q s)) = trace s @ evs \<and>
         (\<forall>e. fst (promiseAll2 p q s) = Inl e \<longrightarrow> kindOf e = ConsensusError \<or> \<not> answered evs)"
    by (intro exI[of _ "e1 @ e2"])
       (auto simp: promiseAll2_def answered_append split: sum.splits)
qed

lemmas faulting_intros =
  faulting_await faulting_promiseAll2 faulting_invoke faulting_throw faulting_resolve

lemma faulting_assert: "faulting (assertHeadersMatchConsensusState env link side cid h)"
  unfolding assertHeadersMatchConsensusState_def Let_def queryConsensusStateTm_def header_def
  by (auto intro!: faulting_intros split: option.splits)

lemma faulting_createWithExisting:
  "faulting (createWithExistingConnections env nodeA nodeB connA connB)"
  unfolding createWithExistingConnections_def Let_def queryConnection_def getChainId_def
    queryClientStateTm_def
  by (auto intro!: faulting_intros faulting_assert split: option.splits)

lemma assert_success:
  assumes "assertHeadersMatchConsensusState env link side cid h s = (Inr u, s')"
  shows "\<exists>cons hdr rt.
     trace s' = trace s @
       [(client (src (getEnds link side)), QueryConsensusStateTm cid h, Inr (RConsensusState cons)),
        (client (dest (getEnds link side)), GetHeader (toIntHeight h), Inr (RHeader hdr))] \<and>
     nextValidatorsHash cons = hdr_nextValidatorsHash hdr \<and> root cons = Some rt \<and>
     hash rt = hdr_appHash hdr"
  using assms
  unfolding assertHeadersMatchConsensusState_def Let_def queryConsensusStateTm_def header_def
    arrayContentEquals_def
  by (auto simp: await_Inr promiseAll2_Inr invoke_Inr resolve_eq throw_eq
           split: option.splits if_splits)

lemma createWithExisting_success:
  assumes "createWithExistingConnections env nodeA nodeB connA connB s = (Inr link, s')"
  shows "\<exists>cA cB cpA cpB csA csB consA hdrB consB hdrA rtA rtB.
     added s s' =
       [(nodeA, QueryConnection connA, Inr (RConnection (Some cA))),
        (nodeB, QueryConnection connB, Inr (RConnection (Some cB))),
        (nodeA, GetChainId, Inr (RString (chainId csB))),
        (nodeB, GetChainId, Inr (RString (chainId csA))),
        (nodeA, QueryClientStateTm (clientId cA), Inr (RClientState csA)),
        (nodeB, QueryClientStateTm (clientId cB), Inr (RClientState csB)),
        (nodeA, QueryConsensusStateTm (clientId cA) (latestHeight csA), Inr (RConsensusState consA)),
        (nodeB, GetHeader (toIntHeight (latestHeight csA)), Inr (RHeader hdrB)),
        (nodeB, QueryConsensusStateTm (clientId cB) (latestHeight csB), Inr (RConsensusState consB)),
        (nodeA, GetHeader (toIntHeight (latestHeight csB)), Inr (RHeader hdrA))] \<and>
     counterparty cA = Some cpA \<and> counterparty cB = Some cpB \<and>
     state cA = STATE_OPEN \<and> state cB = STATE_OPEN \<and>
     clientId cA = cp_clientId cpB \<and> clientId cB = cp_clientId cpA \<and>
     nextValidatorsHash consA = hdr_nextValidatorsHash hdrB \<and> root consA = Some rtA \<and>
     hash rtA = hdr_appHash hdrB \<and>
     nextValidatorsHash consB = hdr_nextValidatorsHash hdrA \<and> root consB = Some rtB \<and>
     hash rtB = hdr_appHash hdrA \<and>
     link = \<lparr>endA = \<lparr>client = nodeA, clientID = clientId cA, connectionID = connA\<rparr>,
              endB = \<lparr>client = nodeB, clientID = clientId cB, connectionID = connB\<rparr>\<rparr>"
  using assms
  unfolding createWithExistingConnections_def Let_def queryConnection_def getChainId_def
    queryClientStateTm_def added_def
  by (clarsimp simp: await_Inr promiseAll2_Inr invoke_Inr resolve_eq case_option_Inr if_throw_Inr
        getEnds_def dest!: assert_success)


lemma added_append: "trace s' = trace s @ evs \<Longrightarrow> added s s' = evs"
  by (simp add: added_def)

lemma assert_run:
  assumes "assertHeadersMatchConsensusState env link side cid h s = (r, s')"
  shows "\<exists>rc rh.
     added s s' =
       [(client (src (getEnds link side)), QueryConsensusStateTm cid h, map_sum id RConsensusState rc),
        (client (dest (getEnds link side)), GetHeader (toIntHeight h), map_sum id RHeader rh)] \<and>
     r = (case rc of Inl e \<Rightarrow> Inl e
          | Inr cons \<Rightarrow>
             (case rh of Inl e \<Rightarrow> Inl e
              | Inr hdr \<Rightarrow>
                 if nextValidatorsHash cons \<noteq> hdr_nextValidatorsHash hdr
                 then Inl NextValidatorHashMismatch
                 else (case root cons of None \<Rightarrow> Inl RootHashMissing
                       | Some rt \<Rightarrow> if hash rt \<noteq> hdr_appHash hdr then Inl AppHashMismatch
                                    else Inr ())))"
proof -
  let ?e = "getEnds link side"
  obtain rc w1 where c:
    "env_queryConsensusStateTm env (client (src ?e)) cid h (world s) = (rc, w1)"
    by fastforce
  obtain rh w2 where h: "env_header env (client (dest ?e)) (toIntHeight h) w1 = (rh, w2)"
    by fastforce
  show ?thesis
    apply (rule exI[of _ rc], rule exI[of _ rh])
    using assms c h
    unfolding assertHeadersMatchConsensusState_def Let_def queryConsensusStateTm_def header_def
      arrayContentEquals_def added_def
    by (auto simp: await_def promiseAll2_def invoke_def throw_def resolve_def
             split: sum.splits option.splits)
qed

lemma existing_run:
  "fst (createWithExistingConnections twoChains 0 1 ''connection-0'' ''connection-1''
          (start demoWorld)) = Inr demoLink"
  by (simp add: createWithExistingConnections_def assertHeadersMatchConsensusState_def
        arrayContentEquals_def toIntHeight_def getEnds_def call_defs run_defs demo_defs)


text \<open>
  C6: \<open>createWithExistingConnections\<close> broadcasts no transaction, however it ends, and
  it fails unless both queried connections exist and have counterparties, both are in
  state OPEN, and the client ids cross-match: the client id of connection A is the
  counterparty client id of connection B and the other way round. Every Link it returns
  is built from two such connections.
\<close>

theorem createWithExistingConnections_checks:
  "txs (added s (snd (createWithExistingConnections env nodeA nodeB connA connB s))) = [] \<and>
   (\<forall>link. fst (createWithExistingConnections env nodeA nodeB connA connB s) = Inr link \<longrightarrow>
      (\<exists>cA cB cpA cpB.
         take 2 (added s (snd (createWithExistingConnections env nodeA nodeB connA connB s))) =
           [(nodeA, QueryConnection connA, Inr (RConnection (Some cA))),
            (nodeB, QueryConnection connB, Inr (RConnection (Some cB)))] \<and>
         counterparty cA = Some cpA \<and> counterparty cB = Some cpB \<and>
         state cA = STATE_OPEN \<and> state cB = STATE_OPEN \<and>
         clientId cA = cp_clientId cpB \<and> clientId cB = cp_clientId cpA \<and>
         link = \<lparr>endA = \<lparr>client = nodeA, clientID = clientId cA, connectionID = connA\<rparr>,
                  endB = \<lparr>client = nodeB, clientID = clientId cB, connectionID = connB\<rparr>\<rparr>))"
proof (intro conjI allI impI)
  from quiet_createWithExisting[of env nodeA nodeB connA connB]
  obtain evs where "trace (snd (createWithExistingConnections env nodeA nodeB connA connB s))
      = trace s @ evs" "txs evs = []"
    unfolding quiet_def by blast
  then show "txs (added s (snd (createWithExistingConnections env nodeA nodeB connA connB s))) = []"
    by (simp add: added_append)
next
  fix link
  assume "fst (createWithExistingConnections env nodeA nodeB connA connB s) = Inr link"
  then have "createWithExistingConnections env nodeA nodeB connA connB s
      = (Inr link, snd (createWithExistingConnections env nodeA nodeB connA connB s))"
    by (rule run_pair)
  from createWithExisting_success[OF this]
  show "\<exists>cA cB cpA cpB.
         take 2 (added s (snd (createWithExistingConnections env nodeA nodeB connA connB s))) =
           [(nodeA, QueryConnection connA, Inr (RConnection (Some cA))),
            (nodeB, QueryConnection connB, Inr (RConnection (Some cB)))] \<and>
         counterparty cA = Some cpA \<and> counterparty cB = Some cpB \<and>
         state cA = STATE_OPEN \<and> state cB = STATE_OPEN \<and>
         clientId cA = cp_clientId cpB \<and> clientId cB = cp_clientId cpA \<and>
         link = \<lparr>endA = \<lparr>client = nodeA, clientID = clientId cA, connectionID = connA\<rparr>,
                  endB = \<lparr>client = nodeB, clientID = clientId cB, connectionID = connB\<rparr>\<rparr>"
    by fastforce
qed

theorem createWithExistingConnections_checks_witness:
  "fst (createWithExistingConnections twoChains 0 1 ''connection-0'' ''connection-1''
          (start demoWorld)) = Inr demoLink \<and>
   txs (added (start demoWorld)
          (snd (createWithExistingConnections twoChains 0 1 ''connection-0'' ''connection-1''
                  (start demoWorld)))) = [] \<and>
   (\<exists>cA cB cpA cpB.
      take 2 (added (start demoWorld)
                (snd (createWithExistingConnections twoChains 0 1 ''connection-0''
                        ''connection-1'' (start demoWorld)))) =
        [(0, QueryConnection ''connection-0'', Inr (RConnection (Some cA))),
         (1, QueryConnection ''connection-1'', Inr (RConnection (Some cB)))] \<and>
      counterparty cA = Some cpA \<and> counterparty cB = Some cpB \<and>
      state cA = STATE_OPEN \<and> state cB = STATE_OPEN \<and>
      clientId cA = cp_clientId cpB \<and> clientId cB = cp_clientId cpA \<and>
      demoLink = \<lparr>endA = \<lparr>client = 0, clientID = clientId cA, connectionID = ''connection-0''\<rparr>,
                   endB = \<lparr>client = 1, clientID = clientId cB, connectionID = ''connection-1''\<rparr>\<rparr>)"
  using createWithExistingConnections_checks[of "start demoWorld" twoChains 0 1 "''connection-0''" "''connection-1''"] existing_run
  by blast

lemma forked_run:
  "fst (createWithExistingConnections forkedChains 0 1 ''connection-0'' ''connection-1''
          (start demoWorld)) = Inl AppHashMismatch"
  by (simp add: createWithExistingConnections_def assertHeadersMatchConsensusState_def
        arrayContentEquals_def toIntHeight_def getEnds_def call_defs run_defs demo_defs
        forkedChains_def)

lemma forked_answered:
  "answered (added (start demoWorld)
     (snd (createWithExistingConnections forkedChains 0 1 ''connection-0'' ''connection-1''
             (start demoWorld))))"
  by (simp add: createWithExistingConnections_def assertHeadersMatchConsensusState_def
        arrayContentEquals_def toIntHeight_def getEnds_def call_defs run_defs demo_defs
        forkedChains_def answered_def)


text \<open>
  C7: on the side it is asked for, \<open>assertHeadersMatchConsensusState\<close> queries the
  consensus state at the given height and fetches the counterparty's header at that
  height; when both answer, it fails, with a ConsensusError, if the \<open>nextValidatorsHash\<close>
  fields differ, if the root hash is missing, or if the root hash differs from the
  header's \<open>appHash\<close>, and succeeds otherwise. \<open>createWithExistingConnections\<close> returns a
  Link only after this check has passed for side A and for side B, each at the latest
  height of that side's client, and a failure of it in which every call was answered is
  a ConsensusError.
\<close>

theorem headers_must_match_consensus_state:
  "(\<exists>rc rh.
      added s (snd (assertHeadersMatchConsensusState env link side cid h s)) =
        [(client (src (getEnds link side)), QueryConsensusStateTm cid h,
            map_sum id RConsensusState rc),
         (client (dest (getEnds link side)), GetHeader (toIntHeight h), map_sum id RHeader rh)] \<and>
      fst (assertHeadersMatchConsensusState env link side cid h s) =
        (case rc of Inl e \<Rightarrow> Inl e
         | Inr cons \<Rightarrow>
            (case rh of Inl e \<Rightarrow> Inl e
             | Inr hdr \<Rightarrow>
                if nextValidatorsHash cons \<noteq> hdr_nextValidatorsHash hdr
                then Inl NextValidatorHashMismatch
                else (case root cons of None \<Rightarrow> Inl RootHashMissing
                      | Some rt \<Rightarrow> if hash rt \<noteq> hdr_appHash hdr then Inl AppHashMismatch
                                   else Inr ())))) \<and>
   kindOf NextValidatorHashMismatch = ConsensusError \<and>
   kindOf RootHashMissing = ConsensusError \<and>
   kindOf AppHashMismatch = ConsensusError \<and>
   (\<forall>l. fst (createWithExistingConnections env nodeA nodeB connA connB t) = Inr l \<longrightarrow>
      (\<exists>csA csB consA hdrB rtA consB hdrA rtB.
         drop 4 (added t (snd (createWithExistingConnections env nodeA nodeB connA connB t))) =
           [(nodeA, QueryClientStateTm (clientID (endA l)), Inr (RClientState csA)),
            (nodeB, QueryClientStateTm (clientID (endB l)), Inr (RClientState csB)),
            (nodeA, QueryConsensusStateTm (clientID (endA l)) (latestHeight csA),
               Inr (RConsensusState consA)),
            (nodeB, GetHeader (toIntHeight (latestHeight csA)), Inr (RHeader hdrB)),
            (nodeB, QueryConsensusStateTm (clientID (endB l)) (latestHeight csB),
               Inr (RConsensusState consB)),
            (nodeA, GetHeader (toIntHeight (latestHeight csB)), Inr (RHeader hdrA))] \<and>
         nextValidatorsHash consA = hdr_nextValidatorsHash hdrB \<and> root consA = Some rtA \<and>
         hash rtA = hdr_appHash hdrB \<and>
         nextValidatorsHash consB = hdr_nextValidatorsHash hdrA \<and> root consB = Some rtB \<and>
         hash rtB = hdr_appHash hdrA)) \<and>
   (\<forall>e. fst (createWithExistingConnections env nodeA nodeB connA connB t) = Inl e \<and>
        answered (added t (snd (createWithExistingConnections env nodeA nodeB connA connB t)))
        \<longrightarrow> kindOf e = ConsensusError)"
proof (intro conjI allI impI)
  have "assertHeadersMatchConsensusState env link side cid h s
      = (fst (assertHeadersMatchConsensusState env link side cid h s),
         snd (assertHeadersMatchConsensusState env link side cid h s))"
    by simp
  from assert_run[OF this]
  show "\<exists>rc rh.
      added s (snd (assertHeadersMatchConsensusState env link side cid h s)) =
        [(client (src (getEnds link side)), QueryConsensusStateTm cid h,
            map_sum id RConsensusState rc),
         (client (dest (getEnds link side)), GetHeader (toIntHeight h), map_sum id RHeader rh)] \<and>
      fst (assertHeadersMatchConsensusState env link side cid h s) =
        (case rc of Inl e \<Rightarrow> Inl e
         | Inr cons \<Rightarrow>
            (case rh of Inl e \<Rightarrow> Inl e
             | Inr hdr \<Rightarrow>
                if nextValidatorsHash cons \<noteq> hdr_nextValidatorsHash hdr
                then Inl NextValidatorHashMismatch
                else (case root cons of None \<Rightarrow> Inl RootHashMissing
                      | Some rt \<Rightarrow> if hash rt \<noteq> hdr_appHash hdr then Inl AppHashMismatch
                                   else Inr ())))" .
next
  fix l
  assume "fst (createWithExistingConnections env nodeA nodeB connA connB t) = Inr l"
  then have "createWithExistingConnections env nodeA nodeB connA connB t
      = (Inr l, snd (createWithExistingConnections env nodeA nodeB connA connB t))"
    by (rule run_pair)
  from createWithExisting_success[OF this]
  show "\<exists>csA csB consA hdrB rtA consB hdrA rtB.
         drop 4 (added t (snd (createWithExistingConnections env nodeA nodeB connA connB t))) =
           [(nodeA, QueryClientStateTm (clientID (endA l)), Inr (RClientState csA)),
            (nodeB, QueryClientStateTm (clientID (endB l)), Inr (RClientState csB)),
            (nodeA, QueryConsensusStateTm (clientID (endA l)) (latestHeight csA),
               Inr (RConsensusState consA)),
            (nodeB, GetHeader (toIntHeight (latestHeight csA)), Inr (RHeader hdrB)),
            (nodeB, QueryConsensusStateTm (clientID (endB l)) (latestHeight csB),
               Inr (RConsensusState consB)),
            (nodeA, GetHeader (toIntHeight (latestHeight csB)), Inr (RHeader hdrA))] \<and>
         nextValidatorsHash consA = hdr_nextValidatorsHash hdrB \<and> root consA = Some rtA \<and>
         hash rtA = hdr_appHash hdrB \<and>
         nextValidatorsHash consB = hdr_nextValidatorsHash hdrA \<and> root consB = Some rtB \<and>
         hash rtB = hdr_appHash hdrA"
    by fastforce
next
  fix e
  assume a: "fst (createWithExistingConnections env nodeA nodeB connA connB t) = Inl e \<and>
        answered (added t (snd (createWithExistingConnections env nodeA nodeB connA connB t)))"
  from faulting_createWithExisting[of env nodeA nodeB connA connB]
  obtain evs where "trace (snd (createWithExistingConnections env nodeA nodeB connA connB t))
      = trace t @ evs" "kindOf e = ConsensusError \<or> \<not> answered evs"
    unfolding faulting_def using a by blast
  with a show "kindOf e = ConsensusError"
    by (simp add: added_append)
qed simp_all


theorem headers_must_match_consensus_state_witness:
  "fst (createWithExistingConnections forkedChains 0 1 ''connection-0'' ''connection-1''
          (start demoWorld)) = Inl AppHashMismatch \<and>
   answered (added (start demoWorld)
     (snd (createWithExistingConnections forkedChains 0 1 ''connection-0'' ''connection-1''
             (start demoWorld)))) \<and>
   kindOf AppHashMismatch = ConsensusError \<and>
   fst (createWithExistingConnections twoChains 0 1 ''connection-0'' ''connection-1''
          (start demoWorld)) = Inr demoLink \<and>
   (\<exists>csA csB consA hdrB rtA consB hdrA rtB.
      drop 4 (added (start demoWorld)
                (snd (createWithExistingConnections twoChains 0 1 ''connection-0''
                        ''connection-1'' (start demoWorld)))) =
        [(0, QueryClientStateTm (clientID (endA demoLink)), Inr (RClientState csA)),
         (1, QueryClientStateTm (clientID (endB demoLink)), Inr (RClientState csB)),
         (0, QueryConsensusStateTm (clientID (endA demoLink)) (latestHeight csA),
            Inr (RConsensusState consA)),
         (1, GetHeader (toIntHeight (latestHeight csA)), Inr (RHeader hdrB)),
         (1, QueryConsensusStateTm (clientID (endB demoLink)) (latestHeight csB),
            Inr (RConsensusState consB)),
         (0, GetHeader (toIntHeight (latestHeight csB)), Inr (RHeader hdrA))] \<and>
      nextValidatorsHash consA = hdr_nextValidatorsHash hdrB \<and> root consA = Some rtA \<and>
      hash rtA = hdr_appHash hdrB \<and>
      nextValidatorsHash consB = hdr_nextValidatorsHash hdrA \<and> root consB = Some rtB \<and>
      hash rtB = hdr_appHash hdrA)"
  using headers_must_match_consensus_state[of "start demoWorld" forkedChains demoLink A "''07-tendermint-0''" None
             0 1 "''connection-0''" "''connection-1''" "start demoWorld"]
        headers_must_match_consensus_state[of "start demoWorld" twoChains demoLink A "''07-tendermint-0''" None
             0 1 "''connection-0''" "''connection-1''" "start demoWorld"]
        forked_run forked_answered existing_run
  by blast

end
